theory Spec2Isabelle
  imports Complex_Main "HOL-Library.Signed_Division" "HOL-Library.Char_ord"
    "HOL-Library.List_Lexorder" "HOL-Library.Product_Lexorder"
begin

section \<open>Weather feed ingestion: fetcher, database and scheduler\<close>

text \<open>
  A shallow embedding of \<^verbatim>\<open>backend/fetcher.py\<close>, \<^verbatim>\<open>backend/database.py\<close> and
  \<^verbatim>\<open>backend/scheduler.py\<close>. Python's unbounded integers are \<^typ>\<open>int\<close>; a Python
  \<^verbatim>\<open>str\<close> is a \<^typ>\<open>string\<close>, one \<^typ>\<open>char\<close> per character (so the texts
  covered are those over the code points below 256); \<^verbatim>\<open>Optional[T]\<close> is
  \<^typ>\<open>'a option\<close>; an SQLite table is the list of its rows in insertion order.
  Clocks, the network and the third-party parsers are inputs of the functions that
  consult them.
\<close>

subsection \<open>Enumerations of the fetcher\<close>

datatype SourceType = FORECAST | ALERT

datatype DataQuality = VALID | STALE | PARTIAL | INVALID | UNAVAILABLE

fun quality_value :: "DataQuality \<Rightarrow> string" where
  "quality_value VALID = ''valid''"
| "quality_value STALE = ''stale''"
| "quality_value PARTIAL = ''partial''"
| "quality_value INVALID = ''invalid''"
| "quality_value UNAVAILABLE = ''unavailable''"

subsection \<open>Double precision\<close>

text \<open>
  Python's \<^verbatim>\<open>float\<close> and SQLite's \<^verbatim>\<open>REAL\<close> are IEEE double precision numbers. A
  double is modelled by its value \<open>m * 2^e\<close>, written as the pair \<open>(m, e)\<close>.
  \<open>dbl_round num den\<close> is the double nearest to \<open>num / den\<close> (for \<open>den > 0\<close>), a tie
  going to the even significand: \<open>round_exp\<close> is the exponent at which the quotient has
  a significand of 53 bits, and \<open>round_pos\<close> rounds the quotient to an integer at that
  exponent. Numbers outside the range of the normal doubles (below \<open>2^-1022\<close>, from
  \<open>2^1024\<close> on) are not modelled: a conversion from an integer that large raises
  \<^verbatim>\<open>OverflowError\<close> in Python, and none arises from counters of 64 bits.
  \<open>bit_length\<close> is \<^verbatim>\<open>int.bit_length\<close>.
\<close>

function bit_length :: "int \<Rightarrow> nat" where
  "bit_length n = (if n \<le> 0 then 0 else Suc (bit_length (n div 2)))"
  by pat_completeness auto
termination by (relation "measure nat") auto

declare bit_length.simps [simp del]

type_synonym dbl = "int \<times> int"

definition real_of_dbl :: "dbl \<Rightarrow> real" where
  "real_of_dbl d =
     (case d of (m, e) \<Rightarrow>
        if 0 \<le> e then real_of_int (m * 2 ^ nat e) else real_of_int m / 2 ^ nat (- e))"

definition round_exp :: "int \<Rightarrow> int \<Rightarrow> int" where
  "round_exp num den =
     (let d = int (bit_length num) - int (bit_length den)
      in (if (if 0 \<le> d then den * 2 ^ nat d \<le> num else den \<le> num * 2 ^ nat (- d))
          then d else d - 1) - 52)"

definition round_pos :: "int \<Rightarrow> int \<Rightarrow> dbl" where
  "round_pos num den =
     (if num = 0 then (0, 0)
      else let e = round_exp num den;
               n = (if 0 \<le> e then num else num * 2 ^ nat (- e));
               q = (if 0 \<le> e then den * 2 ^ nat e else den);
               m0 = n div q;
               r = n mod q;
               m = (if q < 2 * r \<or> (2 * r = q \<and> odd m0) then m0 + 1 else m0)
           in (m, e))"

definition dbl_round :: "int \<Rightarrow> int \<Rightarrow> dbl" where
  "dbl_round num den =
     (if num < 0 then (case round_pos (- num) den of (m, e) \<Rightarrow> (- m, e))
      else round_pos num den)"

text \<open>The double nearest to \<open>num / den * 2^e\<close>.\<close>

definition dbl_scaled :: "int \<Rightarrow> int \<Rightarrow> int \<Rightarrow> dbl" where
  "dbl_scaled num den e =
     (if 0 \<le> e then dbl_round (num * 2 ^ nat e) den else dbl_round num (den * 2 ^ nat (- e)))"

text \<open>The conversion of an integer to a double, the product and the quotient (of a
  divisor that is not zero) of two doubles, each rounded to the nearest double; and the
  comparison of a double with an integer, which Python makes on the exact values.\<close>

definition float_of_int :: "int \<Rightarrow> dbl" where
  "float_of_int n = dbl_round n 1"

definition dbl_mul :: "dbl \<Rightarrow> dbl \<Rightarrow> dbl" where
  "dbl_mul x y =
     (case x of (m1, e1) \<Rightarrow> case y of (m2, e2) \<Rightarrow> dbl_scaled (m1 * m2) 1 (e1 + e2))"


definition dbl_le_int :: "dbl \<Rightarrow> int \<Rightarrow> bool" where
  "dbl_le_int d n =
     (case d of (m, e) \<Rightarrow> if 0 \<le> e then m * 2 ^ nat e \<le> n else m \<le> n * 2 ^ nat (- e))"

subsection \<open>Quality assessment\<close>

text \<open>
  \<^verbatim>\<open>_assess_quality(valid, total)\<close>. In \<^verbatim>\<open>valid >= total * 0.5\<close> Python converts
  \<^verbatim>\<open>total\<close> to a double, multiplies it by the double \<open>0.5\<close> (\<open>dbl_round 1 2\<close>) and
  compares the integer \<^verbatim>\<open>valid\<close> with the product by value. The product is the exact
  half of \<^verbatim>\<open>total\<close> for every count below \<open>2^53\<close>; from there on it is the half of
  the nearest double.
\<close>

definition assess_quality :: "int \<Rightarrow> int \<Rightarrow> DataQuality" where
  "assess_quality valid total_n =
     (if total_n = 0 then UNAVAILABLE
      else if valid = 0 then INVALID
      else if valid = total_n then VALID
      else if dbl_le_int (dbl_mul (float_of_int total_n) (dbl_round 1 2)) valid then PARTIAL
      else INVALID)"

subsection \<open>Strings\<close>

text \<open>
  The string operations of Python that the fetcher uses. \<^verbatim>\<open>str.isspace\<close>, and with it
  \<^verbatim>\<open>str.strip()\<close> and the class \<^verbatim>\<open>\s\<close> of \<^verbatim>\<open>re\<close>, holds of twelve code points below
  256. Case conversion (\<^verbatim>\<open>upper\<close>, \<^verbatim>\<open>title\<close>, and matching under
  \<^verbatim>\<open>re.IGNORECASE\<close>) is defined on the ASCII letters and leaves every other character
  as it is.
\<close>

definition is_space :: "char \<Rightarrow> bool" where
  "is_space c \<longleftrightarrow>
     (of_char c :: int) \<in> {9, 10, 11, 12, 13, 28, 29, 30, 31, 32, 133, 160}"

definition is_digit :: "char \<Rightarrow> bool" where
  "is_digit c \<longleftrightarrow> 48 \<le> (of_char c :: int) \<and> (of_char c :: int) \<le> 57"

definition is_letter :: "char \<Rightarrow> bool" where
  "is_letter c \<longleftrightarrow>
     (let n = (of_char c :: int) in (65 \<le> n \<and> n \<le> 90) \<or> (97 \<le> n \<and> n \<le> 122))"

definition is_word :: "char \<Rightarrow> bool" where
  "is_word c \<longleftrightarrow>
     (let n = (of_char c :: int) in
      is_digit c \<or> is_letter c \<or> n = 95
      \<or> n \<in> {170, 178, 179, 181, 185, 186, 188, 189, 190}
      \<or> (192 \<le> n \<and> n \<le> 214) \<or> (216 \<le> n \<and> n \<le> 246) \<or> 248 \<le> n)"

definition lower_char :: "char \<Rightarrow> char" where
  "lower_char c =
     (let n = (of_char c :: int) in if 65 \<le> n \<and> n \<le> 90 then char_of (n + 32) else c)"

definition upper_char :: "char \<Rightarrow> char" where
  "upper_char c =
     (let n = (of_char c :: int) in if 97 \<le> n \<and> n \<le> 122 then char_of (n - 32) else c)"

definition str_upper :: "string \<Rightarrow> string" where
  "str_upper s = map upper_char s"

text \<open>\<^verbatim>\<open>str.title()\<close>: a letter is upper-cased after a character that is not a letter,
  and lower-cased after a letter.\<close>

fun title_from :: "bool \<Rightarrow> string \<Rightarrow> string" where
  "title_from previous_is_cased [] = []"
| "title_from previous_is_cased (c # cs) =
     (if previous_is_cased then lower_char c else upper_char c) # title_from (is_letter c) cs"

definition str_title :: "string \<Rightarrow> string" where
  "str_title s = title_from False s"

definition strip :: "string \<Rightarrow> string" where
  "strip s = rev (dropWhile is_space (rev (dropWhile is_space s)))"

text \<open>\<^verbatim>\<open>sep.join(parts)\<close>.\<close>

fun join :: "string \<Rightarrow> string list \<Rightarrow> string" where
  "join sep [] = []"
| "join sep [p] = p"
| "join sep (p # q # ps) = p @ sep @ join sep (q # ps)"

text \<open>\<^verbatim>\<open>str(n)\<close> of an integer: its decimal digits, after a minus sign when negative.\<close>

fun str_of_nat :: "nat \<Rightarrow> string" where
  "str_of_nat n =
     (if n < 10 then [char_of (48 + n)]
      else str_of_nat (n div 10) @ [char_of (48 + n mod 10)])"

definition str_of_int :: "int \<Rightarrow> string" where
  "str_of_int i = (if i < 0 then CHR ''-'' # str_of_nat (nat (- i)) else str_of_nat (nat i))"

text \<open>\<^verbatim>\<open>s.startswith(p)\<close>, compared exactly or without regard to case, and
  \<^verbatim>\<open>p in s\<close>.\<close>

fun lit_prefix :: "bool \<Rightarrow> string \<Rightarrow> string \<Rightarrow> bool" where
  "lit_prefix ci [] s = True"
| "lit_prefix ci (p # ps) [] = False"
| "lit_prefix ci (p # ps) (c # cs) =
     ((if ci then lower_char p = lower_char c else p = c) \<and> lit_prefix ci ps cs)"

fun str_in :: "string \<Rightarrow> string \<Rightarrow> bool" where
  "str_in p [] = (p = [])"
| "str_in p (c # cs) = (lit_prefix False p (c # cs) \<or> str_in p cs)"

text \<open>\<^verbatim>\<open>s[:n] if len(s) > n else s\<close>.\<close>

definition clip :: "nat \<Rightarrow> string \<Rightarrow> string" where
  "clip n s = (if length s > n then take n s else s)"

subsection \<open>Regular expressions\<close>

text \<open>
  The fragment of \<^verbatim>\<open>re\<close> that the patterns of the fetcher are written in, with the
  backtracking semantics of the library: a pattern is a sequence of items, tried from
  left to right, a greedy repetition takes as many characters as it can and gives them
  back one by one, a lazy one takes one more character only when the rest of the
  pattern fails, and of two alternatives the left one is tried first.
  \<^item> \<open>Lit\<close>: a literal text; \<open>Many0 c\<close>, \<open>Many1 c\<close>, \<open>Lazy1 c\<close>: \<^verbatim>\<open>c*\<close>, \<^verbatim>\<open>c+\<close>,
    \<^verbatim>\<open>c+?\<close> for a character class \<open>c\<close>;
  \<^item> \<open>Capture\<close>: a group \<^verbatim>\<open>(...)\<close>; \<open>Either\<close>: \<^verbatim>\<open>(?:a|b)\<close>; \<open>Maybe\<close>: \<^verbatim>\<open>(?:a)?\<close>;
  \<^item> \<open>End\<close>: \<^verbatim>\<open>$\<close>, the end of the text or the position before a final newline.
  The classes are \<^verbatim>\<open>\s\<close>, \<^verbatim>\<open>\w\<close>, \<^verbatim>\<open>\d\<close>, \<^verbatim>\<open>[\d:]\<close>, \<^verbatim>\<open>[^>]\<close> and \<^verbatim>\<open>.\<close> (any
  character but a newline). The flag \<open>ci\<close> is \<^verbatim>\<open>re.IGNORECASE\<close>.
\<close>

datatype cls = Space | Word | Digit | DigitColon | NotGt | AnyChar

fun class_ok :: "cls \<Rightarrow> char \<Rightarrow> bool" where
  "class_ok Space c = is_space c"
| "class_ok Word c = is_word c"
| "class_ok Digit c = is_digit c"
| "class_ok DigitColon c = (is_digit c \<or> c = CHR '':'')"
| "class_ok NotGt c = (c \<noteq> CHR ''>'')"
| "class_ok AnyChar c = (c \<noteq> CHR 0x0A)"

datatype rx = Lit string | Many0 cls | Many1 cls | Lazy1 cls | Capture "rx list"
  | Either "rx list" "rx list" | Maybe "rx list" | End

text \<open>What is left to match: items of the pattern, and the ends of the groups that
  are open, each with the text at which its group began.\<close>

datatype item = Rx rx | Close string

fun rx_weight :: "rx \<Rightarrow> nat" where
  "rx_weight (Lit l) = 1"
| "rx_weight (Many0 c) = 1"
| "rx_weight (Many1 c) = 2"
| "rx_weight (Lazy1 c) = 1"
| "rx_weight (Capture rs) = 2 + sum_list (map rx_weight rs)"
| "rx_weight (Either a b) = 1 + sum_list (map rx_weight a) + sum_list (map rx_weight b)"
| "rx_weight (Maybe a) = 1 + sum_list (map rx_weight a)"
| "rx_weight End = 1"

fun item_weight :: "item \<Rightarrow> nat" where
  "item_weight (Rx r) = rx_weight r"
| "item_weight (Close s) = 1"

text \<open>
  \<open>rx_run ci k s caps\<close> matches the items \<open>k\<close> at the head of \<open>s\<close>: the text left
  after the match and the groups closed so far (each as the text at its start and the
  text at its end), or None when every way of matching fails.
\<close>

function rx_run :: "bool \<Rightarrow> item list \<Rightarrow> string \<Rightarrow> (string \<times> string) list
    \<Rightarrow> (string \<times> (string \<times> string) list) option" where
  "rx_run ci [] s caps = Some (s, caps)"
| "rx_run ci (Rx (Lit l) # k) s caps =
     (if lit_prefix ci l s then rx_run ci k (drop (length l) s) caps else None)"
| "rx_run ci (Rx (Many0 c) # k) [] caps = rx_run ci k [] caps"
| "rx_run ci (Rx (Many0 c) # k) (x # xs) caps =
     (if class_ok c x
      then (case rx_run ci (Rx (Many0 c) # k) xs caps of
              Some r \<Rightarrow> Some r
            | None \<Rightarrow> rx_run ci k (x # xs) caps)
      else rx_run ci k (x # xs) caps)"
| "rx_run ci (Rx (Many1 c) # k) [] caps = None"
| "rx_run ci (Rx (Many1 c) # k) (x # xs) caps =
     (if class_ok c x then rx_run ci (Rx (Many0 c) # k) xs caps else None)"
| "rx_run ci (Rx (Lazy1 c) # k) [] caps = None"
| "rx_run ci (Rx (Lazy1 c) # k) (x # xs) caps =
     (if class_ok c x
      then (case rx_run ci k xs caps of
              Some r \<Rightarrow> Some r
            | None \<Rightarrow> rx_run ci (Rx (Lazy1 c) # k) xs caps)
      else None)"
| "rx_run ci (Rx (Capture rs) # k) s caps = rx_run ci (map Rx rs @ Close s # k) s caps"
| "rx_run ci (Close s0 # k) s caps = rx_run ci k s (caps @ [(s0, s)])"
| "rx_run ci (Rx (Either a b) # k) s caps =
     (case rx_run ci (map Rx a @ k) s caps of
        Some r \<Rightarrow> Some r
      | None \<Rightarrow> rx_run ci (map Rx b @ k) s caps)"
| "rx_run ci (Rx (Maybe a) # k) s caps =
     (case rx_run ci (map Rx a @ k) s caps of
        Some r \<Rightarrow> Some r
      | None \<Rightarrow> rx_run ci k s caps)"
| "rx_run ci (Rx End # k) s caps =
     (if s = [] \<or> s = [CHR 0x0A] then rx_run ci k s caps else None)"
  by pat_completeness auto
termination
  by (relation "measures [\<lambda>(ci, k, s, caps). sum_list (map item_weight k),
                          \<lambda>(ci, k, s, caps). length s]")
     (auto simp: comp_def)

definition cap_text :: "string \<times> string \<Rightarrow> string" where
  "cap_text c = take (length (fst c) - length (snd c)) (fst c)"

text \<open>\<^verbatim>\<open>re.search(pattern, s)\<close>: the groups of the match at the leftmost position where
  the pattern matches, numbered in the order in which they close.\<close>

fun re_search :: "bool \<Rightarrow> rx list \<Rightarrow> string \<Rightarrow> string list option" where
  "re_search ci rs [] =
     (case rx_run ci (map Rx rs) [] [] of
        Some (rest, caps) \<Rightarrow> Some (map cap_text caps)
      | None \<Rightarrow> None)"
| "re_search ci rs (c # cs) =
     (case rx_run ci (map Rx rs) (c # cs) [] of
        Some (rest, caps) \<Rightarrow> Some (map cap_text caps)
      | None \<Rightarrow> re_search ci rs cs)"

text \<open>\<^verbatim>\<open>re.sub(pattern, repl, s)\<close> for a pattern that matches no empty text (each of
  the three patterns it is called with takes at least one character): every match, from
  left to right, is replaced.\<close>

function re_sub :: "bool \<Rightarrow> rx list \<Rightarrow> string \<Rightarrow> string \<Rightarrow> string" where
  "re_sub ci rs repl [] = []"
| "re_sub ci rs repl (c # cs) =
     (case rx_run ci (map Rx rs) (c # cs) [] of
        Some (rest, caps) \<Rightarrow>
          (if length rest \<le> length cs then repl @ re_sub ci rs repl rest
           else c # re_sub ci rs repl cs)
      | None \<Rightarrow> c # re_sub ci rs repl cs)"
  by pat_completeness auto
termination
  by (relation "measure (\<lambda>(ci, rs, repl, s). length s)") auto

subsection \<open>Library functions and the network\<close>

text \<open>
  The library functions that the fetcher calls are parameters of the model:
  \<^item> \<open>utf8_decode\<close>: \<^verbatim>\<open>content.decode("utf-8", errors="ignore")\<close>;
  \<^item> \<open>ET_fromstring\<close>: \<^verbatim>\<open>ET.fromstring(content)\<close>, the root element or (\<open>Inl\<close>) the
    text of the \<^verbatim>\<open>ET.ParseError\<close>;
  \<^item> \<open>feedparser_parse\<close>: \<^verbatim>\<open>feedparser.parse(content)\<close>;
  \<^item> \<open>html_unescape\<close>: \<^verbatim>\<open>html.unescape(text)\<close>;
  \<^item> \<open>sha256_hexdigest\<close>:
    \<^verbatim>\<open>hashlib.sha256(s.encode("utf-8", errors="ignore")).hexdigest()\<close>;
  \<^item> \<open>int_of_str\<close>: \<^verbatim>\<open>int(s)\<close>, None for a \<^verbatim>\<open>ValueError\<close>;
  \<^item> \<open>datetime_isoformat\<close>: \<^verbatim>\<open>datetime(*t).isoformat()\<close>, None when the constructor
    raises.
\<close>

datatype xml = Element (elem_tag: string) (elem_attrib: "(string \<times> string) list")
  (elem_text: "string option") (elem_children: "xml list")

record feed_entry =
  fe_title :: "string option"
  fe_summary :: "string option"
  fe_description :: "string option"
  fe_published_parsed :: "int list option"
  fe_published :: "string option"
  fe_link :: "string option"

record feed =
  bozo :: bool
  bozo_exception :: string
  entries :: "feed_entry list"

record py_lib =
  utf8_decode :: "string \<Rightarrow> string"
  ET_fromstring :: "string \<Rightarrow> string + xml"
  feedparser_parse :: "string \<Rightarrow> feed"
  html_unescape :: "string \<Rightarrow> string"
  sha256_hexdigest :: "string \<Rightarrow> string"
  int_of_str :: "string \<Rightarrow> int option"
  datetime_isoformat :: "int list \<Rightarrow> string option"

text \<open>What \<^verbatim>\<open>session.get\<close> and \<^verbatim>\<open>raise_for_status\<close> come back with: the body and
  the elapsed milliseconds, or one of the exceptions of \<^verbatim>\<open>requests\<close> (with the text of
  the exception, or the status code).\<close>

datatype http_outcome = Response string int | Timeout | ConnectionError string
  | HTTPError int | RequestException string

text \<open>One run of a fetch: \<open>fetch_start\<close> is \<^verbatim>\<open>fetch_start.isoformat()\<close>, \<open>outcome\<close>
  what the network does, \<open>elapsed_ms\<close> the milliseconds from \<open>fetch_start\<close> to the
  exception handler, \<open>db_now\<close> the clock of the database and \<open>status_now\<close> the
  \<^verbatim>\<open>utcnow().isoformat()\<close> of \<^verbatim>\<open>update_source_status\<close>.\<close>

record fetch_env =
  fetch_start :: string
  outcome :: http_outcome
  elapsed_ms :: int
  db_now :: string
  status_now :: string

datatype py_exception = FetchError string | ValidationError string

fun str_of_exception :: "py_exception \<Rightarrow> string" where
  "str_of_exception (FetchError m) = m"
| "str_of_exception (ValidationError m) = m"

subsection \<open>Constants and data classes of the fetcher\<close>

definition DEFAULT_TIMEOUT :: int where "DEFAULT_TIMEOUT = 15"

definition FORECAST_FRESHNESS_HOURS :: int where "FORECAST_FRESHNESS_HOURS = 12"

definition ALERT_FRESHNESS_HOURS :: int where "ALERT_FRESHNESS_HOURS = 1"

definition ANM_FORECAST_XML_URL :: string where
  "ANM_FORECAST_XML_URL = ''http://www.meteoromania.ro/anm/prognoza-orase-xml.php''"

definition ANM_ALERTS_RSS_URL :: string where
  "ANM_ALERTS_RSS_URL = ''http://www.meteoromania.ro/anm2/avertizari-rss.php''"

text \<open>The field \<^verbatim>\<open>fetched_at\<close> of the two data classes (the time of construction) is
  read by none of the operations below and is left out. The fields carry the prefix
  \<open>cf_\<close>, \<open>al_\<close> or \<open>md_\<close> of their class.\<close>

record CityForecast =
  cf_city :: string
  cf_forecast_date :: string
  cf_data_date :: string
  cf_temp_min :: int
  cf_temp_max :: int
  cf_conditions :: string
  cf_conditions_code :: string
  cf_source_url :: string
  cf_content_hash :: string

record WeatherAlert =
  al_title :: string
  al_description :: string
  al_published_at :: "string option"
  al_link :: "string option"
  al_alert_level :: "string option"
  al_affected_zones :: "string option"
  al_time_range :: "string option"
  al_source_url :: string
  al_content_hash :: string

record FetchMetadata =
  md_source_url :: string
  md_source_type :: SourceType
  md_fetch_time :: string
  md_success :: bool
  md_entries_count :: int
  md_valid_entries :: int
  md_error_message :: "string option"
  md_response_time_ms :: int
  md_data_quality :: DataQuality
  md_is_fresh :: bool
  md_last_modified :: "string option"

record ANMFetcher =
  timeout :: int
  last_fetch_metadata :: "string \<rightharpoonup> FetchMetadata"
  cached_cities :: "string list"

definition new_fetcher :: ANMFetcher where
  "new_fetcher = \<lparr>timeout = DEFAULT_TIMEOUT, last_fetch_metadata = Map.empty, cached_cities = []\<rparr>"

text \<open>\<^verbatim>\<open>_fetch_raw\<close>.\<close>

fun fetch_raw :: "int \<Rightarrow> http_outcome \<Rightarrow> py_exception + string \<times> int" where
  "fetch_raw tmo (Response content response_time) = Inr (content, response_time)"
| "fetch_raw tmo Timeout =
     Inl (FetchError (''Request timed out after '' @ str_of_int tmo @ ''s''))"
| "fetch_raw tmo (ConnectionError e) =
     Inl (FetchError (''Connection error - source unavailable: '' @ e))"
| "fetch_raw tmo (HTTPError status_code) =
     Inl (FetchError (''HTTP error '' @ str_of_int status_code))"
| "fetch_raw tmo (RequestException e) = Inl (FetchError (''Request failed: '' @ e))"

text \<open>\<^verbatim>\<open>_compute_hash(*args)\<close>, on the \<^verbatim>\<open>str\<close> of each argument.\<close>

definition compute_hash :: "py_lib \<Rightarrow> string list \<Rightarrow> string" where
  "compute_hash lib args = sha256_hexdigest lib (join ''|'' args)"

subsection \<open>Forecasts: the XML document\<close>

text \<open>\<^verbatim>\<open>e.get(key, default)\<close>, \<^verbatim>\<open>e.findall(tag)\<close> (the children with that tag),
  \<^verbatim>\<open>e.findtext(tag, default)\<close> (the text of the first such child, the empty text when
  it has none) and \<^verbatim>\<open>e.findall(".//tag")\<close> (the descendants with that tag, in document
  order).\<close>

definition xml_get :: "xml \<Rightarrow> string \<Rightarrow> string \<Rightarrow> string" where
  "xml_get e k d = (case map_of (elem_attrib e) k of Some v \<Rightarrow> v | None \<Rightarrow> d)"

definition xml_findall :: "xml \<Rightarrow> string \<Rightarrow> xml list" where
  "xml_findall e t = filter (\<lambda>c. elem_tag c = t) (elem_children e)"

definition xml_findtext :: "xml \<Rightarrow> string \<Rightarrow> string \<Rightarrow> string" where
  "xml_findtext e t d =
     (case find (\<lambda>c. elem_tag c = t) (elem_children e) of
        None \<Rightarrow> d
      | Some c \<Rightarrow> (case elem_text c of None \<Rightarrow> [] | Some x \<Rightarrow> x))"

fun descendants :: "xml \<Rightarrow> xml list" where
  "descendants (Element t a x cs) = concat (map (\<lambda>c. c # descendants c) cs)"

definition xml_findall_descendants :: "xml \<Rightarrow> string \<Rightarrow> xml list" where
  "xml_findall_descendants e t = filter (\<lambda>c. elem_tag c = t) (descendants e)"

text \<open>\<^verbatim>\<open>_validate_xml_structure\<close>.\<close>

definition validate_xml_structure :: "py_lib \<Rightarrow> string \<Rightarrow> bool" where
  "validate_xml_structure lib content =
     (let content_str = utf8_decode lib content in
      if strip content_str = [] then False
      else if \<not> str_in ''<?xml'' content_str \<and> \<not> lit_prefix False ''<'' (strip content_str)
      then False
      else (case ET_fromstring lib content of Inl e \<Rightarrow> False | Inr root_elem \<Rightarrow> True))"

text \<open>\<^verbatim>\<open>_translate_conditions\<close>: the table \<^verbatim>\<open>translations\<close> in the order of the dictionary.\<close>

definition translation_table :: "(string \<times> string) list" where
  "translation_table =
     [(''CER SENIN'', ''Clear Sky''),
      (''CER VARIABIL'', ''Partly Cloudy''),
      (''CER PARTIAL NOROS'', ''Partly Cloudy''),
      (''CER MAI MULT NOROS'', ''Mostly Cloudy''),
      (''CER NOROS'', ''Cloudy''),
      (''INNNORAT'', ''Overcast''),
      (''PLOAIE SLABA'', ''Light Rain''),
      (''PLOAIE'', ''Rain''),
      (''PLOAIE MODERATA'', ''Moderate Rain''),
      (''PLOI'', ''Rainy''),
      (''AVERSE'', ''Showers''),
      (''FURTUNA'', ''Thunderstorm''),
      (''NINSOARE SLABA'', ''Light Snow''),
      (''NINSOARE'', ''Snow''),
      (''NINSOARE MODERATA'', ''Moderate Snow''),
      (''LAPOVITA'', ''Sleet''),
      (''CEATA'', ''Fog''),
      (''BURNITA'', ''Drizzle'')]"

definition translate_conditions :: "string \<Rightarrow> string" where
  "translate_conditions romanian =
     (if romanian = [] then ''Unknown''
      else
        (let romanian_upper = str_upper romanian;
             result_parts = map snd (filter (\<lambda>(ro, en). str_in ro romanian_upper) translation_table)
         in if result_parts \<noteq> [] then join '', '' result_parts else str_title romanian))"

text \<open>
  \<^verbatim>\<open>_parse_forecast_xml\<close>. The state of the two loops is the list \<^verbatim>\<open>forecasts\<close> with
  the counters \<^verbatim>\<open>valid_count\<close> and \<^verbatim>\<open>total_count\<close>. \<open>parse_prognoza\<close> is the body of
  the inner loop: \<^verbatim>\<open>continue\<close> on a missing field and the handler of \<^verbatim>\<open>ValueError\<close>
  both leave the entry out.
\<close>

type_synonym forecast_acc = "CityForecast list \<times> int \<times> int"

definition parse_prognoza ::
  "py_lib \<Rightarrow> string \<Rightarrow> string \<Rightarrow> xml \<Rightarrow> forecast_acc \<Rightarrow> forecast_acc" where
  "parse_prognoza lib city_name data_prognozei prognoza acc =
     (case acc of (forecasts, valid_count, total_count0) \<Rightarrow>
      (let total_count = total_count0 + 1;
           forecast_date = xml_get prognoza ''data'' [];
           temp_min_text = xml_findtext prognoza ''temp_min'' [];
           temp_max_text = xml_findtext prognoza ''temp_max'' [];
           conditions = xml_findtext prognoza ''fenomen_descriere'' [];
           conditions_code = xml_findtext prognoza ''fenomen_simbol'' []
       in if forecast_date = [] \<or> temp_min_text = [] \<or> temp_max_text = []
          then (forecasts, valid_count, total_count)
          else
            (case int_of_str lib temp_min_text of
               None \<Rightarrow> (forecasts, valid_count, total_count)
             | Some temp_min \<Rightarrow>
                 (case int_of_str lib temp_max_text of
                    None \<Rightarrow> (forecasts, valid_count, total_count)
                  | Some temp_max \<Rightarrow>
                      (let conditions_en = translate_conditions conditions;
                           hash = compute_hash lib
                             [city_name, forecast_date, str_of_int temp_min,
                              str_of_int temp_max, conditions];
                           forecast =
                             \<lparr>cf_city = city_name, cf_forecast_date = forecast_date,
                              cf_data_date = data_prognozei, cf_temp_min = temp_min,
                              cf_temp_max = temp_max, cf_conditions = conditions_en,
                              cf_conditions_code = conditions_code,
                              cf_source_url = ANM_FORECAST_XML_URL,
                              cf_content_hash = hash\<rparr>
                       in (forecasts @ [forecast], valid_count + 1, total_count))))))"

fun prognoza_loop ::
  "py_lib \<Rightarrow> string \<Rightarrow> string \<Rightarrow> xml list \<Rightarrow> forecast_acc \<Rightarrow> forecast_acc" where
  "prognoza_loop lib city_name data_prognozei [] acc = acc"
| "prognoza_loop lib city_name data_prognozei (prognoza # rest) acc =
     prognoza_loop lib city_name data_prognozei rest
       (parse_prognoza lib city_name data_prognozei prognoza acc)"

fun localitate_loop :: "py_lib \<Rightarrow> xml list \<Rightarrow> forecast_acc \<Rightarrow> forecast_acc" where
  "localitate_loop lib [] acc = acc"
| "localitate_loop lib (localitate # rest) acc =
     (let city_name = strip (xml_get localitate ''nume'' []) in
      if city_name = [] then localitate_loop lib rest acc
      else
        (let data_prognozei = xml_findtext localitate ''DataPrognozei'' [] in
         localitate_loop lib rest
           (prognoza_loop lib city_name data_prognozei
              (xml_findall localitate ''prognoza'') acc)))"

definition parse_forecast_xml :: "py_lib \<Rightarrow> string \<Rightarrow> py_exception + forecast_acc" where
  "parse_forecast_xml lib content =
     (case ET_fromstring lib content of
        Inl e \<Rightarrow> Inl (ValidationError (''XML parsing failed: '' @ e))
      | Inr root_elem \<Rightarrow>
          Inr (localitate_loop lib (xml_findall_descendants root_elem ''localitate'') ([], 0, 0)))"

subsection \<open>Alerts: the RSS feed\<close>

text \<open>\<^verbatim>\<open>_clean_html\<close>: tags become blanks, entities are decoded, runs of white space
  become one blank, and the ends are stripped.\<close>

definition clean_html :: "py_lib \<Rightarrow> string \<Rightarrow> string" where
  "clean_html lib text_in =
     (if text_in = [] then []
      else
        (let t1 = re_sub False [Lit ''<'', Many1 NotGt, Lit ''>''] '' '' text_in;
             t2 = html_unescape lib t1
         in strip (re_sub False [Many1 Space] '' '' t2)))"

text \<open>\<^verbatim>\<open>_extract_alert_level\<close>, pattern \<^verbatim>\<open>COD\s*:\s*(\w+)\<close>, ignoring case.\<close>

definition extract_alert_level :: "string \<Rightarrow> string option" where
  "extract_alert_level text_in =
     (case re_search True
             [Lit ''COD'', Many0 Space, Lit '':'', Many0 Space, Capture [Many1 Word]] text_in of
        Some groups \<Rightarrow>
          (let level = str_upper (groups ! 0) in
           Some (case map_of [(''GALBEN'', ''YELLOW''), (''PORTOCALIU'', ''ORANGE''),
                              (''ROSU'', ''RED'')] level of
                   Some v \<Rightarrow> v
                 | None \<Rightarrow> level))
      | None \<Rightarrow> None)"

text \<open>\<^verbatim>\<open>_extract_zones\<close>, pattern \<^verbatim>\<open>In zona\s*:\s*(.+?)(?:Se vor|$)\<close> on the cleaned
  text.\<close>

definition extract_zones :: "py_lib \<Rightarrow> string \<Rightarrow> string option" where
  "extract_zones lib text_in =
     (case re_search False
             [Lit ''In zona'', Many0 Space, Lit '':'', Many0 Space, Capture [Lazy1 AnyChar],
              Either [Lit ''Se vor''] [End]]
             (clean_html lib text_in) of
        Some groups \<Rightarrow> Some (clip 200 (strip (groups ! 0)))
      | None \<Rightarrow> None)"

text \<open>\<^verbatim>\<open>_extract_time_range\<close>, pattern
  \<^verbatim>\<open>Intre orele\s*:\s*([\d:]+)\s*si\s*([\d:]+)\<close>.\<close>

definition extract_time_range :: "string \<Rightarrow> string option" where
  "extract_time_range text_in =
     (case re_search False
             [Lit ''Intre orele'', Many0 Space, Lit '':'', Many0 Space,
              Capture [Many1 DigitColon], Many0 Space, Lit ''si'', Many0 Space,
              Capture [Many1 DigitColon]] text_in of
        Some groups \<Rightarrow> Some (groups ! 0 @ '' - '' @ groups ! 1)
      | None \<Rightarrow> None)"

text \<open>
  \<^verbatim>\<open>_format_alert_description\<close>. The list \<^verbatim>\<open>patterns\<close>, in its order:
  \<^verbatim>\<open>Se vor semnala\s*:\s*(.+?)(?:$)\<close>,
  \<^verbatim>\<open>Fenomene vizate\s*:\s*(.+?)(?:$)\<close> and
  \<^verbatim>\<open>Fenomene\s*:\s*conform textelor\s+Mesaj\s*:\s*(.+?)(?:Interval de valabilitate|$)\<close>;
  then the pattern of the fallback,
  \<^verbatim>\<open>Mesaj\s*:\s*(?:MESAJ\s*\d+/\d+\s*)?(.+?)(?:Interval de valabilitate|$)\<close>;
  and the pattern \<^verbatim>\<open>\s*Interval de valabilitate.*$\<close> that the clean-up removes. All
  are matched ignoring case.
\<close>

definition label_colon :: "string \<Rightarrow> rx list" where
  "label_colon label = [Lit label, Many0 Space, Lit '':'', Many0 Space]"

definition description_patterns :: "rx list list" where
  "description_patterns =
     [label_colon ''Se vor semnala'' @ [Capture [Lazy1 AnyChar], End],
      label_colon ''Fenomene vizate'' @ [Capture [Lazy1 AnyChar], End],
      label_colon ''Fenomene'' @ [Lit ''conform textelor'', Many1 Space]
        @ label_colon ''Mesaj''
        @ [Capture [Lazy1 AnyChar], Either [Lit ''Interval de valabilitate''] [End]]]"

definition message_pattern :: "rx list" where
  "message_pattern =
     label_colon ''Mesaj''
       @ [Maybe [Lit ''MESAJ'', Many0 Space, Many1 Digit, Lit ''/'', Many1 Digit, Many0 Space],
          Capture [Lazy1 AnyChar], Either [Lit ''Interval de valabilitate''] [End]]"

definition validity_pattern :: "rx list" where
  "validity_pattern =
     [Many0 Space, Lit ''Interval de valabilitate'', Many0 AnyChar, End]"

text \<open>The \<^verbatim>\<open>for\<close> loop over \<^verbatim>\<open>patterns\<close>: the text it returns, or None when it runs
  to its end.\<close>

fun pattern_loop :: "rx list list \<Rightarrow> string \<Rightarrow> string option" where
  "pattern_loop [] clean = None"
| "pattern_loop (pattern # rest) clean =
     (case re_search True pattern clean of
        Some groups \<Rightarrow>
          (let result = re_sub True validity_pattern [] (strip (groups ! 0)) in
           if length result > 20 then Some (clip 500 result)
           else pattern_loop rest clean)
      | None \<Rightarrow> pattern_loop rest clean)"

definition format_alert_description :: "py_lib \<Rightarrow> string \<Rightarrow> string" where
  "format_alert_description lib text_in =
     (let clean = clean_html lib text_in in
      case pattern_loop description_patterns clean of
        Some result \<Rightarrow> result
      | None \<Rightarrow>
          (let fallback =
                 (case re_search True message_pattern clean of
                    Some groups \<Rightarrow>
                      (let result = strip (groups ! 0) in
                       if length result > 20 then Some (clip 500 result) else None)
                  | None \<Rightarrow> None)
           in case fallback of
                Some result \<Rightarrow> result
              | None \<Rightarrow> clip 500 clean))"

text \<open>
  \<^verbatim>\<open>_parse_alert_rss\<close>. \<open>parse_item\<close> is the body of the loop; none of the operations
  in it raises, so every item of the feed yields an alert and the handler of the loop
  is not reached. \<^verbatim>\<open>x or ''\<close> of an attribute that is absent, None or empty is the
  empty text.
\<close>

definition or_empty :: "string option \<Rightarrow> string" where
  "or_empty x = (case x of None \<Rightarrow> [] | Some v \<Rightarrow> v)"

definition str_of_optional :: "string option \<Rightarrow> string" where
  "str_of_optional x = (case x of None \<Rightarrow> ''None'' | Some v \<Rightarrow> v)"

type_synonym alert_acc = "WeatherAlert list \<times> int \<times> int"

definition parse_item :: "py_lib \<Rightarrow> feed_entry \<Rightarrow> WeatherAlert" where
  "parse_item lib item_v =
     (let title = clean_html lib (or_empty (fe_title item_v));
          description_raw =
            (if or_empty (fe_summary item_v) \<noteq> [] then or_empty (fe_summary item_v)
             else or_empty (fe_description item_v));
          published_at =
            (case fe_published_parsed item_v of
               None \<Rightarrow> None
             | Some t \<Rightarrow>
                 (if t = [] then None
                  else (case datetime_isoformat lib (take 6 t) of
                          Some stamp \<Rightarrow> Some stamp
                        | None \<Rightarrow> fe_published item_v)));
          hash = compute_hash lib [title, description_raw, str_of_optional published_at]
      in \<lparr>al_title = (if title \<noteq> [] then title else ''Weather Alert''),
          al_description = format_alert_description lib description_raw,
          al_published_at = published_at,
          al_link = fe_link item_v,
          al_alert_level = extract_alert_level description_raw,
          al_affected_zones = extract_zones lib description_raw,
          al_time_range = extract_time_range description_raw,
          al_source_url = ANM_ALERTS_RSS_URL,
          al_content_hash = hash\<rparr>)"

fun item_loop :: "py_lib \<Rightarrow> feed_entry list \<Rightarrow> alert_acc \<Rightarrow> alert_acc" where
  "item_loop lib [] acc = acc"
| "item_loop lib (item_v # rest) (alerts, valid_count, total_count) =
     item_loop lib rest (alerts @ [parse_item lib item_v], valid_count + 1, total_count + 1)"

definition parse_alert_rss :: "py_lib \<Rightarrow> string \<Rightarrow> py_exception + alert_acc" where
  "parse_alert_rss lib content =
     (let parsed = feedparser_parse lib content in
      if bozo parsed \<and> entries parsed = []
      then Inl (ValidationError (''RSS parsing failed: '' @ bozo_exception parsed))
      else Inr (item_loop lib (entries parsed) ([], 0, 0)))"

subsection \<open>The two fetch operations\<close>

text \<open>
  \<^verbatim>\<open>fetch_forecasts\<close> and \<^verbatim>\<open>fetch_alerts\<close>. The body of \<^verbatim>\<open>try\<close> is a value of
  \<open>py_exception + _\<close>; the handler of \<^verbatim>\<open>(FetchError, ValidationError)\<close> takes the
  \<open>Inl\<close>. Each returns the records and the metadata, and the fetcher with its cache
  and its last metadata updated. \<^verbatim>\<open>list(set(...))\<close> keeps one copy of every city, in
  an order the language leaves open; \<^verbatim>\<open>get_available_cities\<close> sorts it.
\<close>

definition failed_metadata ::
  "string \<Rightarrow> SourceType \<Rightarrow> fetch_env \<Rightarrow> py_exception \<Rightarrow> FetchMetadata" where
  "failed_metadata url source_type env e =
     \<lparr>md_source_url = url, md_source_type = source_type,
      md_fetch_time = fetch_start env, md_success = False, md_entries_count = 0,
      md_valid_entries = 0, md_error_message = Some (str_of_exception e),
      md_response_time_ms = elapsed_ms env, md_data_quality = UNAVAILABLE,
      md_is_fresh = False, md_last_modified = None\<rparr>"

definition fetch_forecasts ::
  "py_lib \<Rightarrow> ANMFetcher \<Rightarrow> fetch_env \<Rightarrow> (CityForecast list \<times> FetchMetadata) \<times> ANMFetcher" where
  "fetch_forecasts lib self env =
     (let url = ANM_FORECAST_XML_URL;
          attempt =
            (case fetch_raw (timeout self) (outcome env) of
               Inl e \<Rightarrow> Inl e
             | Inr (raw_content, response_time) \<Rightarrow>
                 (if \<not> validate_xml_structure lib raw_content
                  then Inl (ValidationError ''Invalid XML structure'')
                  else (case parse_forecast_xml lib raw_content of
                          Inl e \<Rightarrow> Inl e
                        | Inr parsed \<Rightarrow> Inr (parsed, response_time))))
      in case attempt of
           Inr ((forecasts, valid_count, total_count), response_time) \<Rightarrow>
             (let data_quality = assess_quality valid_count total_count;
                  metadata =
                    \<lparr>md_source_url = url, md_source_type = FORECAST,
                     md_fetch_time = fetch_start env, md_success = True,
                     md_entries_count = total_count, md_valid_entries = valid_count,
                     md_error_message = None, md_response_time_ms = response_time,
                     md_data_quality = data_quality, md_is_fresh = True,
                     md_last_modified = None\<rparr>
              in ((forecasts, metadata),
                  self\<lparr>cached_cities := remdups (map cf_city forecasts),
                       last_fetch_metadata := (last_fetch_metadata self)(url \<mapsto> metadata)\<rparr>))
         | Inl e \<Rightarrow>
             (let metadata = failed_metadata url FORECAST env e
              in (([], metadata),
                  self\<lparr>last_fetch_metadata := (last_fetch_metadata self)(url \<mapsto> metadata)\<rparr>)))"

definition fetch_alerts ::
  "py_lib \<Rightarrow> ANMFetcher \<Rightarrow> fetch_env \<Rightarrow> (WeatherAlert list \<times> FetchMetadata) \<times> ANMFetcher" where
  "fetch_alerts lib self env =
     (let url = ANM_ALERTS_RSS_URL;
          attempt =
            (case fetch_raw (timeout self) (outcome env) of
               Inl e \<Rightarrow> Inl e
             | Inr (raw_content, response_time) \<Rightarrow>
                 (case parse_alert_rss lib raw_content of
                    Inl e \<Rightarrow> Inl e
                  | Inr parsed \<Rightarrow> Inr (parsed, response_time)))
      in case attempt of
           Inr ((alerts, valid_count, total_count), response_time) \<Rightarrow>
             (let data_quality = assess_quality valid_count total_count;
                  metadata =
                    \<lparr>md_source_url = url, md_source_type = ALERT,
                     md_fetch_time = fetch_start env, md_success = True,
                     md_entries_count = total_count, md_valid_entries = valid_count,
                     md_error_message = None, md_response_time_ms = response_time,
                     md_data_quality = data_quality, md_is_fresh = True,
                     md_last_modified = None\<rparr>
              in ((alerts, metadata),
                  self\<lparr>last_fetch_metadata := (last_fetch_metadata self)(url \<mapsto> metadata)\<rparr>))
         | Inl e \<Rightarrow>
             (let metadata = failed_metadata url ALERT env e
              in (([], metadata),
                  self\<lparr>last_fetch_metadata := (last_fetch_metadata self)(url \<mapsto> metadata)\<rparr>)))"

definition get_available_cities :: "ANMFetcher \<Rightarrow> string list" where
  "get_available_cities self = sort (cached_cities self)"

subsection \<open>The database (database.py)\<close>

text \<open>
  The three tables of \<^verbatim>\<open>_init_schema\<close>. A row is a record with one field per column; a
  nullable column that the code may leave \<^verbatim>\<open>NULL\<close> is an option. The counters of
  \<^verbatim>\<open>source_status\<close> are written by \<^verbatim>\<open>update_source_status\<close> only, which never stores
  \<^verbatim>\<open>NULL\<close> in them, so they are plain integers (and \<^verbatim>\<open>existing[0] or 0\<close> is the
  stored value). \<^verbatim>\<open>AUTOINCREMENT\<close> keys follow SQLite: one more than the largest key the
  table holds or has ever handed out (the \<^verbatim>\<open>sqlite_sequence\<close> value). The model covers
  what the statements do to the tables, including the constraint violations that make
  SQLite raise; failures of the storage medium are outside it.
\<close>

record forecast_row =
  fc_id :: int
  fc_city :: string
  fc_forecast_date :: string
  fc_data_date :: string
  fc_temp_min :: int
  fc_temp_max :: int
  fc_conditions :: string
  fc_conditions_code :: string
  fc_source_url :: string
  fc_content_hash :: string
  fc_fetched_at :: string

record alert_row =
  wa_id :: int
  wa_title :: string
  wa_description :: string
  wa_published_at :: "string option"
  wa_link :: "string option"
  wa_alert_level :: "string option"
  wa_affected_zones :: "string option"
  wa_time_range :: "string option"
  wa_source_url :: string
  wa_content_hash :: string
  wa_fetched_at :: string
  wa_is_active :: int

record status_row =
  ss_id :: int
  ss_source_url :: string
  ss_source_type :: string
  ss_source_name :: string
  ss_last_fetch_at :: "string option"
  ss_last_success_at :: "string option"
  ss_fetch_count :: int
  ss_success_count :: int
  ss_error_count :: int
  ss_last_error :: "string option"
  ss_status :: string
  ss_data_quality :: string
  ss_is_fresh :: int
  ss_avg_response_time_ms :: int
  ss_last_response_time_ms :: int
  ss_consecutive_failures :: int
  ss_entries_count :: int

record Database =
  city_forecasts :: "forecast_row list"
  city_forecasts_seq :: int
  weather_alerts :: "alert_row list"
  weather_alerts_seq :: int
  source_status :: "status_row list"
  source_status_seq :: int

definition empty_database :: Database where
  "empty_database =
     \<lparr>city_forecasts = [], city_forecasts_seq = 0,
      weather_alerts = [], weather_alerts_seq = 0,
      source_status = [], source_status_seq = 0\<rparr>"

text \<open>The key an \<^verbatim>\<open>AUTOINCREMENT\<close> column gives the next row.\<close>

definition next_rowid :: "int list \<Rightarrow> int \<Rightarrow> int" where
  "next_rowid ids seq = fold max ids seq + 1"

subsubsection \<open>Forecasts: delete, then insert\<close>

text \<open>
  \<^verbatim>\<open>insert_forecast\<close>. The connection is in autocommit mode
  (\<^verbatim>\<open>isolation_level=None\<close>), so the \<^verbatim>\<open>DELETE\<close> stands even when the \<^verbatim>\<open>INSERT\<close>
  raises. The only constraint the typed arguments can violate is
  \<^verbatim>\<open>UNIQUE(city, forecast_date, content_hash)\<close>; a violation is an
  \<^verbatim>\<open>sqlite3.IntegrityError\<close>, caught as \<^verbatim>\<open>sqlite3.Error\<close>, and the result False.
  The argument \<open>now\<close> is the database clock behind the column default of
  \<^verbatim>\<open>fetched_at\<close>.
\<close>

definition same_key :: "string \<Rightarrow> string \<Rightarrow> forecast_row \<Rightarrow> bool" where
  "same_key city forecast_date r \<longleftrightarrow> fc_city r = city \<and> fc_forecast_date r = forecast_date"

definition insert_forecast ::
  "Database \<Rightarrow> string \<Rightarrow> string \<Rightarrow> string \<Rightarrow> string \<Rightarrow> int \<Rightarrow> int \<Rightarrow> string \<Rightarrow> string
     \<Rightarrow> string \<Rightarrow> string \<Rightarrow> bool \<times> Database" where
  "insert_forecast db now city forecast_date data_date temp_min temp_max conditions
       conditions_code source_url content_hash =
     (let kept = filter (\<lambda>r. \<not> same_key city forecast_date r) (city_forecasts db);
          db1 = db\<lparr>city_forecasts := kept\<rparr>
      in if list_ex (\<lambda>r. same_key city forecast_date r \<and> fc_content_hash r = content_hash) kept
         then (False, db1)
         else
           (let i = next_rowid (map fc_id kept) (city_forecasts_seq db);
                row = \<lparr>fc_id = i, fc_city = city, fc_forecast_date = forecast_date,
                       fc_data_date = data_date, fc_temp_min = temp_min,
                       fc_temp_max = temp_max, fc_conditions = conditions,
                       fc_conditions_code = conditions_code, fc_source_url = source_url,
                       fc_content_hash = content_hash, fc_fetched_at = now\<rparr>
            in (True, db1\<lparr>city_forecasts := kept @ [row], city_forecasts_seq := i\<rparr>)))"

subsubsection \<open>Alerts: insert unless the fingerprint is known\<close>

text \<open>
  \<^verbatim>\<open>insert_alert\<close>: \<^verbatim>\<open>INSERT OR IGNORE\<close> skips the row when \<^verbatim>\<open>content_hash\<close>
  (\<^verbatim>\<open>UNIQUE\<close>) is already in the table, and \<^verbatim>\<open>SELECT changes()\<close> then reads the
  number of rows the statement inserted, 0 or 1. A new row is active
  (\<^verbatim>\<open>is_active\<close> defaults to 1).
\<close>

definition insert_alert ::
  "Database \<Rightarrow> string \<Rightarrow> string \<Rightarrow> string \<Rightarrow> string option \<Rightarrow> string option \<Rightarrow> string option
     \<Rightarrow> string option \<Rightarrow> string option \<Rightarrow> string \<Rightarrow> string \<Rightarrow> bool \<times> Database" where
  "insert_alert db now title description published_at link alert_level affected_zones
       time_range source_url content_hash =
     (let changes =
            (if list_ex (\<lambda>r. wa_content_hash r = content_hash) (weather_alerts db)
             then (0::int) else 1);
          db1 =
            (if changes = 0 then db
             else
               (let i = next_rowid (map wa_id (weather_alerts db)) (weather_alerts_seq db);
                    row = \<lparr>wa_id = i, wa_title = title, wa_description = description,
                           wa_published_at = published_at, wa_link = link,
                           wa_alert_level = alert_level,
                           wa_affected_zones = affected_zones,
                           wa_time_range = time_range, wa_source_url = source_url,
                           wa_content_hash = content_hash, wa_fetched_at = now,
                           wa_is_active = 1\<rparr>
                in db\<lparr>weather_alerts := weather_alerts db @ [row],
                      weather_alerts_seq := i\<rparr>))
      in (changes > 0, db1))"

definition get_alert_count :: "Database \<Rightarrow> int" where
  "get_alert_count db = int (length (filter (\<lambda>r. wa_is_active r = 1) (weather_alerts db)))"

text \<open>
  \<^verbatim>\<open>deactivate_old_alerts\<close>: the active rows whose \<^verbatim>\<open>fetched_at\<close> lies more than
  the given hours before the clock of the database become inactive, and their number is
  returned. \<open>is_old\<close> decides
  \<^verbatim>\<open>datetime(fetched_at) < datetime('now', '-N hours')\<close> at the time of the call. No
  row is deleted.
\<close>

definition deactivate_old_alerts :: "Database \<Rightarrow> (string \<Rightarrow> bool) \<Rightarrow> int \<times> Database" where
  "deactivate_old_alerts db is_old =
     (let hit = (\<lambda>r. wa_is_active r = 1 \<and> is_old (wa_fetched_at r)) in
      (int (length (filter hit (weather_alerts db))),
       db\<lparr>weather_alerts :=
            map (\<lambda>r. if hit r then r\<lparr>wa_is_active := 0\<rparr> else r) (weather_alerts db)\<rparr>))"

subsubsection \<open>Source status\<close>

text \<open>
  \<^verbatim>\<open>update_source_status\<close>. \<open>now\<close> is \<^verbatim>\<open>datetime.utcnow().isoformat()\<close>. The new
  average is \<^verbatim>\<open>int(x / y)\<close>, truncation towards zero of the quotient (\<open>sdiv\<close>).
\<close>

definition update_source_status ::
  "Database \<Rightarrow> string \<Rightarrow> string \<Rightarrow> string \<Rightarrow> string \<Rightarrow> bool \<Rightarrow> string \<Rightarrow> bool \<Rightarrow> int
     \<Rightarrow> string option \<Rightarrow> int \<Rightarrow> Database" where
  "update_source_status db now source_url source_type source_name success data_quality
       is_fresh entries_count error_message response_time_ms =
     (let status = (if success then ''ok'' else ''error'') in
      case find (\<lambda>r. ss_source_url r = source_url) (source_status db) of
        Some existing \<Rightarrow>
          (let fetch_count = ss_fetch_count existing;
               old_avg = ss_avg_response_time_ms existing;
               old_failures = ss_consecutive_failures existing;
               new_avg =
                 (if fetch_count > 0
                  then (old_avg * fetch_count + response_time_ms) sdiv (fetch_count + 1)
                  else response_time_ms);
               consecutive_failures = (if success then 0 else old_failures + 1)
           in db\<lparr>source_status :=
                 map (\<lambda>r. if ss_source_url r = source_url
                       then r\<lparr>ss_source_type := source_type,
                              ss_source_name := source_name,
                              ss_last_fetch_at := Some now,
                              ss_last_success_at :=
                                (if success then Some now else ss_last_success_at r),
                              ss_fetch_count := ss_fetch_count r + 1,
                              ss_success_count :=
                                ss_success_count r + (if success then 1 else 0),
                              ss_error_count :=
                                ss_error_count r + (if success then 0 else 1),
                              ss_last_error := (if success then None else error_message),
                              ss_status := status,
                              ss_data_quality := data_quality,
                              ss_is_fresh := (if is_fresh then 1 else 0),
                              ss_avg_response_time_ms := new_avg,
                              ss_last_response_time_ms := response_time_ms,
                              ss_consecutive_failures := consecutive_failures,
                              ss_entries_count := entries_count\<rparr>
                       else r)
                   (source_status db)\<rparr>)
      | None \<Rightarrow>
          (let i = next_rowid (map ss_id (source_status db)) (source_status_seq db);
               row = \<lparr>ss_id = i, ss_source_url = source_url, ss_source_type = source_type,
                      ss_source_name = source_name, ss_last_fetch_at = Some now,
                      ss_last_success_at = (if success then Some now else None),
                      ss_fetch_count = 1,
                      ss_success_count = (if success then 1 else 0),
                      ss_error_count = (if success then 0 else 1),
                      ss_last_error = error_message, ss_status = status,
                      ss_data_quality = data_quality,
                      ss_is_fresh = (if is_fresh then 1 else 0),
                      ss_avg_response_time_ms = response_time_ms,
                      ss_last_response_time_ms = response_time_ms,
                      ss_consecutive_failures = (if success then 0 else 1),
                      ss_entries_count = entries_count\<rparr>
           in db\<lparr>source_status := source_status db @ [row], source_status_seq := i\<rparr>))"







subsection \<open>The scheduler (scheduler.py)\<close>

record FetchResult =
  res_source_url :: string
  res_source_type :: string
  res_source_name :: string
  res_success :: bool
  res_entries_added :: int
  res_total_entries :: int
  res_error_message :: "string option"
  res_fetch_time :: string
  res_data_quality :: string
  res_response_time_ms :: int

text \<open>\<^verbatim>\<open>forecast_healthy\<close> and \<^verbatim>\<open>alert_healthy\<close> hold the value of
  \<^verbatim>\<open>result and result.success\<close>: None when there is no result yet.\<close>

record SyncStatus =
  last_sync_time :: string
  forecast_healthy :: "bool option"
  alert_healthy :: "bool option"
  overall_quality :: string
  cities_available :: int
  active_alerts :: int

text \<open>The callables that \<^verbatim>\<open>start\<close> registers with the background scheduler.\<close>

datatype job_callable = Call_fetch_forecasts | Call_fetch_alerts

record WeatherScheduler =
  database :: Database
  fetcher :: ANMFetcher
  forecast_interval :: int
  alert_interval :: int
  jobs :: "(string \<times> job_callable \<times> int) list"
  is_running :: bool
  last_forecast_result :: "FetchResult option"
  last_alert_result :: "FetchResult option"
  last_sync_status :: "SyncStatus option"

definition FORECAST_POLL_INTERVAL_MINUTES :: int where
  "FORECAST_POLL_INTERVAL_MINUTES = 60"

definition ALERT_POLL_INTERVAL_MINUTES :: int where
  "ALERT_POLL_INTERVAL_MINUTES = 10"

definition FORECAST_SOURCE_name :: string where
  "FORECAST_SOURCE_name = ''ANM Romania Forecasts''"

definition ALERT_SOURCE_name :: string where
  "ALERT_SOURCE_name = ''ANM Romania Alerts''"

definition new_scheduler :: "Database \<Rightarrow> WeatherScheduler" where
  "new_scheduler db =
     \<lparr>database = db, fetcher = new_fetcher,
      forecast_interval = FORECAST_POLL_INTERVAL_MINUTES,
      alert_interval = ALERT_POLL_INTERVAL_MINUTES,
      jobs = [], is_running = False,
      last_forecast_result = None, last_alert_result = None, last_sync_status = None\<rparr>"

text \<open>The loops of \<^verbatim>\<open>_fetch_forecasts\<close> and \<^verbatim>\<open>_fetch_alerts\<close> that store the records
  and count the calls that returned True.\<close>

fun store_forecasts :: "Database \<Rightarrow> string \<Rightarrow> CityForecast list \<Rightarrow> int \<Rightarrow> int \<times> Database" where
  "store_forecasts db now [] added = (added, db)"
| "store_forecasts db now (forecast # rest) added =
     (case insert_forecast db now (cf_city forecast) (cf_forecast_date forecast)
             (cf_data_date forecast) (cf_temp_min forecast) (cf_temp_max forecast)
             (cf_conditions forecast) (cf_conditions_code forecast)
             (cf_source_url forecast) (cf_content_hash forecast) of
        (inserted, db') \<Rightarrow>
          store_forecasts db' now rest (if inserted then added + 1 else added))"

fun store_alerts :: "Database \<Rightarrow> string \<Rightarrow> WeatherAlert list \<Rightarrow> int \<Rightarrow> int \<times> Database" where
  "store_alerts db now [] added = (added, db)"
| "store_alerts db now (alert # rest) added =
     (case insert_alert db now (al_title alert) (al_description alert)
             (al_published_at alert) (al_link alert) (al_alert_level alert)
             (al_affected_zones alert) (al_time_range alert) (al_source_url alert)
             (al_content_hash alert) of
        (inserted, db') \<Rightarrow>
          store_alerts db' now rest (if inserted then added + 1 else added))"

text \<open>
  \<^verbatim>\<open>_fetch_forecasts\<close> and \<^verbatim>\<open>_fetch_alerts\<close> of the scheduler. None of the operations
  in their \<^verbatim>\<open>try\<close> raises in this model, so the handler of \<^verbatim>\<open>Exception\<close> is not
  reached.
\<close>

definition scheduler_fetch_forecasts ::
  "py_lib \<Rightarrow> WeatherScheduler \<Rightarrow> fetch_env \<Rightarrow> FetchResult \<times> WeatherScheduler" where
  "scheduler_fetch_forecasts lib self env =
     (case fetch_forecasts lib (fetcher self) env of
        ((forecasts, metadata), fetcher') \<Rightarrow>
          (case store_forecasts (database self) (db_now env) forecasts 0 of
             (added, db1) \<Rightarrow>
               (let db2 = update_source_status db1 (status_now env)
                            (md_source_url metadata) ''forecast'' FORECAST_SOURCE_name
                            (md_success metadata)
                            (quality_value (md_data_quality metadata))
                            (md_is_fresh metadata) (md_valid_entries metadata)
                            (md_error_message metadata) (md_response_time_ms metadata);
                    result =
                      \<lparr>res_source_url = md_source_url metadata,
                       res_source_type = ''forecast'',
                       res_source_name = FORECAST_SOURCE_name,
                       res_success = md_success metadata,
                       res_entries_added = added,
                       res_total_entries = md_entries_count metadata,
                       res_error_message = md_error_message metadata,
                       res_fetch_time = md_fetch_time metadata,
                       res_data_quality = quality_value (md_data_quality metadata),
                       res_response_time_ms = md_response_time_ms metadata\<rparr>
                in (result,
                    self\<lparr>database := db2, fetcher := fetcher',
                         last_forecast_result := Some result\<rparr>))))"

definition scheduler_fetch_alerts ::
  "py_lib \<Rightarrow> WeatherScheduler \<Rightarrow> fetch_env \<Rightarrow> FetchResult \<times> WeatherScheduler" where
  "scheduler_fetch_alerts lib self env =
     (case fetch_alerts lib (fetcher self) env of
        ((alerts, metadata), fetcher') \<Rightarrow>
          (case store_alerts (database self) (db_now env) alerts 0 of
             (added, db1) \<Rightarrow>
               (let db2 = update_source_status db1 (status_now env)
                            (md_source_url metadata) ''alert'' ALERT_SOURCE_name
                            (md_success metadata)
                            (quality_value (md_data_quality metadata))
                            (md_is_fresh metadata) (md_valid_entries metadata)
                            (md_error_message metadata) (md_response_time_ms metadata);
                    result =
                      \<lparr>res_source_url = md_source_url metadata,
                       res_source_type = ''alert'',
                       res_source_name = ALERT_SOURCE_name,
                       res_success = md_success metadata,
                       res_entries_added = added,
                       res_total_entries = md_entries_count metadata,
                       res_error_message = md_error_message metadata,
                       res_fetch_time = md_fetch_time metadata,
                       res_data_quality = quality_value (md_data_quality metadata),
                       res_response_time_ms = md_response_time_ms metadata\<rparr>
                in (result,
                    self\<lparr>database := db2, fetcher := fetcher',
                         last_alert_result := Some result\<rparr>))))"

text \<open>\<^verbatim>\<open>_update_sync_status\<close>; \<open>now\<close> is \<^verbatim>\<open>utcnow().isoformat()\<close>. \<open>truthy\<close> is the
  truth value Python gives \<^verbatim>\<open>result and result.success\<close>.\<close>

definition truthy :: "bool option \<Rightarrow> bool" where
  "truthy x \<longleftrightarrow> x = Some True"

definition update_sync_status :: "WeatherScheduler \<Rightarrow> string \<Rightarrow> WeatherScheduler" where
  "update_sync_status self now =
     (let forecast_ok = map_option res_success (last_forecast_result self);
          alert_ok = map_option res_success (last_alert_result self);
          overall =
            (if truthy forecast_ok \<and> truthy alert_ok then ''valid''
             else if truthy forecast_ok \<or> truthy alert_ok then ''partial''
             else ''unavailable'')
      in self\<lparr>last_sync_status :=
           Some \<lparr>last_sync_time = now, forecast_healthy = forecast_ok,
                 alert_healthy = alert_ok, overall_quality = overall,
                 cities_available = int (length (get_available_cities (fetcher self))),
                 active_alerts = get_alert_count (database self)\<rparr>\<rparr>)"

text \<open>\<^verbatim>\<open>fetch_all\<close>, which \<^verbatim>\<open>trigger_immediate_fetch\<close> returns: one run of each source,
  then the sync status.\<close>

definition fetch_all ::
  "py_lib \<Rightarrow> WeatherScheduler \<Rightarrow> fetch_env \<Rightarrow> fetch_env \<Rightarrow> string
     \<Rightarrow> FetchResult list \<times> WeatherScheduler" where
  "fetch_all lib self forecast_env alert_env now =
     (case scheduler_fetch_forecasts lib self forecast_env of
        (forecast_result, s1) \<Rightarrow>
          (case scheduler_fetch_alerts lib s1 alert_env of
             (alert_result, s2) \<Rightarrow>
               ([forecast_result, alert_result], update_sync_status s2 now)))"

definition trigger_immediate_fetch ::
  "py_lib \<Rightarrow> WeatherScheduler \<Rightarrow> fetch_env \<Rightarrow> fetch_env \<Rightarrow> string
     \<Rightarrow> FetchResult list \<times> WeatherScheduler" where
  "trigger_immediate_fetch lib self forecast_env alert_env now =
     fetch_all lib self forecast_env alert_env now"

text \<open>
  \<^verbatim>\<open>start\<close> registers \<^verbatim>\<open>self._fetch_forecasts\<close> as \<^verbatim>\<open>forecast_job\<close> and
  \<^verbatim>\<open>self._fetch_alerts\<close> as \<^verbatim>\<open>alert_job\<close>, each with its interval in minutes
  (\<^verbatim>\<open>replace_existing=True\<close>), and does nothing when the scheduler runs already.
  \<open>run_job\<close> is one firing of a registered job by the background scheduler: it calls
  the registered callable.
\<close>

definition add_job ::
  "string \<Rightarrow> job_callable \<Rightarrow> int \<Rightarrow> (string \<times> job_callable \<times> int) list
     \<Rightarrow> (string \<times> job_callable \<times> int) list" where
  "add_job job_id callable minutes js =
     filter (\<lambda>j. fst j \<noteq> job_id) js @ [(job_id, callable, minutes)]"

definition start :: "WeatherScheduler \<Rightarrow> WeatherScheduler" where
  "start self =
     (if is_running self then self
      else self\<lparr>jobs :=
                  add_job ''alert_job'' Call_fetch_alerts (alert_interval self)
                    (add_job ''forecast_job'' Call_fetch_forecasts (forecast_interval self)
                       (jobs self)),
                is_running := True\<rparr>)"

definition stop :: "WeatherScheduler \<Rightarrow> WeatherScheduler" where
  "stop self = (if \<not> is_running self then self else self\<lparr>is_running := False\<rparr>)"

definition run_job :: "py_lib \<Rightarrow> WeatherScheduler \<Rightarrow> string \<Rightarrow> fetch_env \<Rightarrow> WeatherScheduler" where
  "run_job lib self job_id env =
     (if \<not> is_running self then self
      else (case map_of (jobs self) job_id of
              None \<Rightarrow> self
            | Some (Call_fetch_forecasts, minutes) \<Rightarrow>
                snd (scheduler_fetch_forecasts lib self env)
            | Some (Call_fetch_alerts, minutes) \<Rightarrow>
                snd (scheduler_fetch_alerts lib self env)))"

definition get_sync_status :: "WeatherScheduler \<Rightarrow> SyncStatus option" where
  "get_sync_status self = last_sync_status self"

definition get_last_results :: "WeatherScheduler \<Rightarrow> FetchResult list" where
  "get_last_results self =
     (case last_forecast_result self of None \<Rightarrow> [] | Some r \<Rightarrow> [r])
       @ (case last_alert_result self of None \<Rightarrow> [] | Some r \<Rightarrow> [r])"

subsection \<open>States of the database and examples\<close>

text \<open>
  The keys of \<^verbatim>\<open>city_forecasts\<close> that are in use were all handed out by the
  sequence: no row has a key above the recorded sequence value. It holds of every state
  the operations reach from the empty database.
\<close>

definition forecast_ids_issued :: "Database \<Rightarrow> bool" where
  "forecast_ids_issued db \<longleftrightarrow>
     list_all (\<lambda>r. fc_id r \<le> city_forecasts_seq db) (city_forecasts db)"

text \<open>The states of the database that its four writing operations reach from the
  empty one, whatever their arguments.\<close>

inductive reachable :: "Database \<Rightarrow> bool" where
  reachable_empty: "reachable empty_database"
| reachable_insert_forecast:
    "reachable db \<Longrightarrow>
     reachable (snd (insert_forecast db now city forecast_date data_date temp_min temp_max
       conditions conditions_code source_url content_hash))"
| reachable_insert_alert:
    "reachable db \<Longrightarrow>
     reachable (snd (insert_alert db now title description published_at link alert_level
       affected_zones time_range source_url content_hash))"
| reachable_update_source_status:
    "reachable db \<Longrightarrow>
     reachable (update_source_status db now source_url source_type source_name success
       data_quality is_fresh entries_count error_message response_time_ms)"
| reachable_deactivate_old_alerts:
    "reachable db \<Longrightarrow> reachable (snd (deactivate_old_alerts db is_old))"

definition counts_add_up :: "status_row \<Rightarrow> bool" where
  "counts_add_up r \<longleftrightarrow> ss_fetch_count r = ss_success_count r + ss_error_count r"

definition counters :: "status_row \<Rightarrow> int \<times> int \<times> int" where
  "counters r = (ss_fetch_count r, ss_success_count r, ss_error_count r)"

definition status_rows_of :: "string \<Rightarrow> Database \<Rightarrow> status_row list" where
  "status_rows_of url db = filter (\<lambda>r. ss_source_url r = url) (source_status db)"

text \<open>A database with two forecasts.\<close>

definition db_example :: Database where
  "db_example = empty_database
     \<lparr>city_forecasts :=
        [\<lparr>fc_id = 1, fc_city = ''Cluj'', fc_forecast_date = ''2024-05-01'',
          fc_data_date = ''2024-04-30'', fc_temp_min = 5, fc_temp_max = 17,
          fc_conditions = ''Rain'', fc_conditions_code = ''r1'',
          fc_source_url = ''u'', fc_content_hash = ''h1'',
          fc_fetched_at = ''2024-04-30 06:00:00''\<rparr>,
         \<lparr>fc_id = 2, fc_city = ''Iasi'', fc_forecast_date = ''2024-05-01'',
          fc_data_date = ''2024-04-30'', fc_temp_min = 3, fc_temp_max = 12,
          fc_conditions = ''Fog'', fc_conditions_code = ''f1'',
          fc_source_url = ''u'', fc_content_hash = ''h2'',
          fc_fetched_at = ''2024-04-30 06:00:00''\<rparr>],
      city_forecasts_seq := 2\<rparr>"

text \<open>A source after one failed fetch, and a source after a success and two failures.\<close>

definition status_example :: Database where
  "status_example =
     update_source_status empty_database ''2024-05-01T10:00:00'' ''http://feed'' ''forecast''
       ''Feed'' False ''unavailable'' False 0 (Some ''Request timed out after 15s'') 15000"


text \<open>The fingerprints the alert table holds.\<close>

definition known_hashes :: "Database \<Rightarrow> string set" where
  "known_hashes db = set (map wa_content_hash (weather_alerts db))"

text \<open>An example feed with the same entry twice, library functions for the examples
  (texts without entities, the identity for the digest), and the environment of a run.\<close>

definition feed_example :: feed where
  "feed_example =
     \<lparr>bozo = False, bozo_exception = [],
      entries =
        [\<lparr>fe_title = Some ''Cod galben de vant'',
          fe_summary = Some ''COD : GALBEN In zona : Judetul Cluj Se vor semnala : intensificari ale vantului'',
          fe_description = None, fe_published_parsed = None, fe_published = None,
          fe_link = Some ''http://alerts/1''\<rparr>,
         \<lparr>fe_title = Some ''Cod galben de vant'',
          fe_summary = Some ''COD : GALBEN In zona : Judetul Cluj Se vor semnala : intensificari ale vantului'',
          fe_description = None, fe_published_parsed = None, fe_published = None,
          fe_link = Some ''http://alerts/1''\<rparr>]\<rparr>"

definition lib_example :: py_lib where
  "lib_example =
     \<lparr>utf8_decode = (\<lambda>s. s),
      ET_fromstring = (\<lambda>s. Inl ''syntax error''),
      feedparser_parse = (\<lambda>s. feed_example),
      html_unescape = (\<lambda>s. s),
      sha256_hexdigest = (\<lambda>s. s),
      int_of_str = (\<lambda>s. None),
      datetime_isoformat = (\<lambda>t. None)\<rparr>"

definition env_example :: "http_outcome \<Rightarrow> string \<Rightarrow> fetch_env" where
  "env_example out now =
     \<lparr>fetch_start = now, outcome = out, elapsed_ms = 15000, db_now = now, status_now = now\<rparr>"

definition one_alert :: Database where
  "one_alert = snd (insert_alert empty_database ''2024-05-01 10:00:00'' ''Cod galben'' ''vant''
       None None (Some ''YELLOW'') None None ''http://feed'' ''h'')"

text \<open>
  A fetch fails when the network call ends in an exception (timeout, connection failure,
  HTTP error, any other request failure) or the document fails validation as a whole:
  for forecasts \<^verbatim>\<open>_validate_xml_structure\<close> says no, for alerts the feed parser
  reports a fatal problem and no entry.
\<close>

definition forecast_fetch_fails :: "py_lib \<Rightarrow> fetch_env \<Rightarrow> bool" where
  "forecast_fetch_fails lib env =
     (case outcome env of
        Response content response_time \<Rightarrow> \<not> validate_xml_structure lib content
      | _ \<Rightarrow> True)"

definition alert_fetch_fails :: "py_lib \<Rightarrow> fetch_env \<Rightarrow> bool" where
  "alert_fetch_fails lib env =
     (case outcome env of
        Response content response_time \<Rightarrow>
          bozo (feedparser_parse lib content) \<and> entries (feedparser_parse lib content) = []
      | _ \<Rightarrow> True)"

text \<open>
  What the forecast parser counts. A location is named when its attribute \<^verbatim>\<open>nume\<close>,
  stripped of surrounding white space, is not empty; the entries counted are the
  \<^verbatim>\<open>prognoza\<close> children of the named locations, in document order; an entry is
  valid when it has a date, a minimum and a maximum, and \<^verbatim>\<open>int\<close> accepts both
  temperatures. \<open>forecast_of\<close> is the record a valid entry yields.
\<close>

definition named_location :: "xml \<Rightarrow> bool" where
  "named_location l \<longleftrightarrow> strip (xml_get l ''nume'' []) \<noteq> []"

definition counted_entries :: "xml \<Rightarrow> xml list" where
  "counted_entries root_elem =
     concat (map (\<lambda>l. xml_findall l ''prognoza'')
       (filter named_location (xml_findall_descendants root_elem ''localitate'')))"

definition entry_valid :: "py_lib \<Rightarrow> xml \<Rightarrow> bool" where
  "entry_valid lib p \<longleftrightarrow>
     xml_get p ''data'' [] \<noteq> []
     \<and> xml_findtext p ''temp_min'' [] \<noteq> [] \<and> xml_findtext p ''temp_max'' [] \<noteq> []
     \<and> int_of_str lib (xml_findtext p ''temp_min'' []) \<noteq> None
     \<and> int_of_str lib (xml_findtext p ''temp_max'' []) \<noteq> None"

definition forecast_of :: "py_lib \<Rightarrow> string \<Rightarrow> string \<Rightarrow> xml \<Rightarrow> CityForecast" where
  "forecast_of lib city_name data_prognozei p =
     \<lparr>cf_city = city_name, cf_forecast_date = xml_get p ''data'' [],
      cf_data_date = data_prognozei,
      cf_temp_min = the (int_of_str lib (xml_findtext p ''temp_min'' [])),
      cf_temp_max = the (int_of_str lib (xml_findtext p ''temp_max'' [])),
      cf_conditions = translate_conditions (xml_findtext p ''fenomen_descriere'' []),
      cf_conditions_code = xml_findtext p ''fenomen_simbol'' [],
      cf_source_url = ANM_FORECAST_XML_URL,
      cf_content_hash = compute_hash lib
        [city_name, xml_get p ''data'' [],
         str_of_int (the (int_of_str lib (xml_findtext p ''temp_min'' []))),
         str_of_int (the (int_of_str lib (xml_findtext p ''temp_max'' []))),
         xml_findtext p ''fenomen_descriere'' []]\<rparr>"

definition location_forecasts :: "py_lib \<Rightarrow> xml \<Rightarrow> CityForecast list" where
  "location_forecasts lib l =
     map (forecast_of lib (strip (xml_get l ''nume'' [])) (xml_findtext l ''DataPrognozei'' []))
       (filter (entry_valid lib) (xml_findall l ''prognoza''))"

text \<open>The claim's reading of a location that counts: its name is not the empty text.\<close>

definition nonempty_name :: "xml \<Rightarrow> bool" where
  "nonempty_name l \<longleftrightarrow> xml_get l ''nume'' [] \<noteq> []"

definition entries_under_nonempty_names :: "xml \<Rightarrow> xml list" where
  "entries_under_nonempty_names root_elem =
     concat (map (\<lambda>l. xml_findall l ''prognoza'')
       (filter nonempty_name (xml_findall_descendants root_elem ''localitate'')))"

text \<open>Documents and library functions for the examples: \<open>decimal_int\<close> reads a
  text of decimal digits with an optional minus sign.\<close>

fun digits_value :: "string \<Rightarrow> nat \<Rightarrow> nat" where
  "digits_value [] acc = acc"
| "digits_value (c # cs) acc = digits_value cs (10 * acc + (of_char c - 48))"

definition decimal_int :: "string \<Rightarrow> int option" where
  "decimal_int s =
     (case s of
        [] \<Rightarrow> None
      | c # cs \<Rightarrow>
          if c = CHR ''-''
          then (if cs \<noteq> [] \<and> list_all is_digit cs then Some (- int (digits_value cs 0))
                else None)
          else if list_all is_digit s then Some (int (digits_value s 0)) else None)"

definition day_entry :: "string \<Rightarrow> string \<Rightarrow> string \<Rightarrow> xml" where
  "day_entry d lo hi =
     Element ''prognoza'' [(''data'', d)] None
       [Element ''temp_min'' [] (Some lo) [], Element ''temp_max'' [] (Some hi) [],
        Element ''fenomen_descriere'' [] (Some ''CER SENIN'') [],
        Element ''fenomen_simbol'' [] (Some ''s1'') []]"

definition forecast_doc :: xml where
  "forecast_doc =
     Element ''tara'' [] None
       [Element ''localitate'' [(''nume'', ''Cluj'')] None
          [Element ''DataPrognozei'' [] (Some ''2024-04-30'') [],
           day_entry ''2024-05-01'' ''5'' ''17'',
           day_entry ''2024-05-02'' ''x'' ''18'',
           day_entry [] ''6'' ''19''],
        Element ''localitate'' [] None [day_entry ''2024-05-01'' ''1'' ''2'']]"

definition blank_name_doc :: xml where
  "blank_name_doc =
     Element ''tara'' [] None
       [Element ''localitate'' [(''nume'', '' '')] None [day_entry ''2024-05-01'' ''5'' ''17'']]"

definition lib_xml :: "xml \<Rightarrow> py_lib" where
  "lib_xml doc = lib_example\<lparr>ET_fromstring := (\<lambda>s. Inr doc), int_of_str := decimal_int\<rparr>"

text \<open>
  The candidates of the narrative formatter: the capture of a pattern of the list,
  stripped and with the trailing validity text removed; the stripped capture of the
  message pattern; and the first candidate that is there and longer than 20 characters.
\<close>

definition trimmed_capture :: "rx list \<Rightarrow> string \<Rightarrow> string option" where
  "trimmed_capture pattern clean =
     (case re_search True pattern clean of
        Some groups \<Rightarrow> Some (re_sub True validity_pattern [] (strip (groups ! 0)))
      | None \<Rightarrow> None)"

definition message_capture :: "string \<Rightarrow> string option" where
  "message_capture clean =
     (case re_search True message_pattern clean of
        Some groups \<Rightarrow> Some (strip (groups ! 0))
      | None \<Rightarrow> None)"

definition first_long :: "string option list \<Rightarrow> string option" where
  "first_long candidates = find (\<lambda>c. length c > 20) (List.map_filter id candidates)"

text \<open>The formatter as the claim words it: the first capture of the listed patterns
  that is longer than 20 characters after trimming, else the first 500 characters of the
  cleaned text.\<close>

definition claimed_description :: "py_lib \<Rightarrow> string \<Rightarrow> string" where
  "claimed_description lib text_in =
     (let clean = clean_html lib text_in in
      case first_long (map (\<lambda>p. trimmed_capture p clean) description_patterns) of
        Some c \<Rightarrow> c
      | None \<Rightarrow> take 500 clean)"

text \<open>Alert texts for the examples.\<close>

definition long_nowcast :: string where
  "long_nowcast = ''Se vor semnala: '' @ replicate 501 (CHR ''a'')"

definition bulletin_message :: string where
  "bulletin_message = ''Mesaj : MESAJ 1/2 Ploi torentiale si vijelii puternice''"

definition nowcast_text :: string where
  "nowcast_text = ''COD : GALBEN <b>In zona</b> : Judetul Cluj Se vor semnala : intensificari ale vantului''"

text \<open>
  A scheduler after the initial fetch of both sources (both succeed) and \<^verbatim>\<open>start\<close>,
  and the same scheduler after one firing of the forecast job in which the request
  times out; and the part of the sync status that the status views read.
\<close>

definition synced_scheduler :: WeatherScheduler where
  "synced_scheduler =
     start (snd (trigger_immediate_fetch (lib_xml forecast_doc) (new_scheduler empty_database)
       (env_example (Response ''<tara/>'' 120) ''2024-05-01T10:00:00'')
       (env_example (Response ''<rss/>'' 95) ''2024-05-01T10:00:01'')
       ''2024-05-01T10:00:02''))"

definition after_forecast_job :: WeatherScheduler where
  "after_forecast_job =
     run_job (lib_xml forecast_doc) synced_scheduler ''forecast_job''
       (env_example Timeout ''2024-05-01T11:00:00'')"

definition status_summary :: "WeatherScheduler \<Rightarrow> (bool option \<times> bool option \<times> string) option" where
  "status_summary s =
     map_option (\<lambda>st. (forecast_healthy st, alert_healthy st, overall_quality st))
       (get_sync_status s)"

section \<open>Properties\<close>

subsection \<open>Double precision: helper lemmas\<close>

lemma bit_length_pos: "0 < n \<Longrightarrow> bit_length n = Suc (bit_length (n div 2))"
  by (subst bit_length.simps) simp

lemma bit_length_nonpos: "n \<le> 0 \<Longrightarrow> bit_length n = 0"
  by (subst bit_length.simps) simp

lemma bit_length_pow2: "bit_length (2 ^ k) = Suc k"
proof (induction k)
  case 0
  show ?case by (simp add: bit_length_pos bit_length_nonpos)
next
  case (Suc k)
  then show ?case by (simp add: bit_length_pos)
qed

lemma bit_length_le: "n < 2 ^ k \<Longrightarrow> bit_length n \<le> k"
proof (induction k arbitrary: n)
  case 0
  then show ?case by (simp add: bit_length_nonpos)
next
  case (Suc k)
  show ?case
  proof (cases "0 < n")
    case True
    from Suc.prems have "n div 2 < 2 ^ k" by simp
    from Suc.IH [OF this] True show ?thesis by (simp add: bit_length_pos)
  next
    case False
    then show ?thesis by (simp add: bit_length_nonpos)
  qed
qed

lemma bit_length_shift: "0 < n \<Longrightarrow> bit_length (n * 2 ^ j) = bit_length n + j"
proof (induction j)
  case 0
  then show ?case by simp
next
  case (Suc j)
  have "0 < n * 2 ^ Suc j" using Suc.prems by simp
  then have "bit_length (n * 2 ^ Suc j) = Suc (bit_length (n * 2 ^ Suc j div 2))"
    by (rule bit_length_pos)
  also have "n * 2 ^ Suc j div 2 = n * 2 ^ j" by simp
  finally show ?case using Suc by simp
qed

lemma round_pos_exact:
  assumes "0 < n" and "n < 2 ^ 53"
  shows "\<exists>i e. round_pos (n * 2 ^ j) (2 ^ k) = (n * 2 ^ i, e) \<and> int i + e = int j - int k"
proof -
  define e where "e = round_exp (n * 2 ^ j) (2 ^ k)"
  have bl: "bit_length n \<le> 53" using assms(2) by (rule bit_length_le)
  have e_le: "e \<le> int j - int k"
    using assms(1) bl
    by (simp add: e_def round_exp_def Let_def bit_length_shift bit_length_pow2)
  have nz: "n * 2 ^ j \<noteq> 0" using assms(1) by simp
  show ?thesis
  proof (cases "0 \<le> e")
    case True
    define i where "i = nat (int j - int k - e)"
    have j_eq: "j = i + (k + nat e)" using True e_le by (simp add: i_def)
    have q: "(2 ^ k :: int) * 2 ^ nat e = 2 ^ (k + nat e)" by (simp add: power_add)
    have n_eq: "n * 2 ^ j = (n * 2 ^ i) * 2 ^ (k + nat e)"
      by (subst j_eq) (simp add: power_add)
    have dv: "n * 2 ^ j div 2 ^ (k + nat e) = n * 2 ^ i"
      by (subst n_eq) simp
    have md: "n * 2 ^ j mod 2 ^ (k + nat e) = 0"
      by (subst n_eq) simp
    have "round_pos (n * 2 ^ j) (2 ^ k) = (n * 2 ^ i, e)"
      using nz True dv md
      by (simp add: round_pos_def Let_def e_def [symmetric] q)
    moreover have "int i + e = int j - int k" using True e_le by (simp add: i_def)
    ultimately show ?thesis by blast
  next
    case False
    define i where "i = nat (int j - int k - e)"
    have j_eq: "j + nat (- e) = i + k" using False e_le by (simp add: i_def)
    have n_eq: "n * 2 ^ j * 2 ^ nat (- e) = (n * 2 ^ i) * 2 ^ k"
    proof -
      have "n * 2 ^ j * 2 ^ nat (- e) = n * 2 ^ (j + nat (- e))" by (simp add: power_add)
      also have "\<dots> = n * 2 ^ (i + k)" by (simp only: j_eq)
      finally show ?thesis by (simp add: power_add)
    qed
    have dv: "n * 2 ^ j * 2 ^ nat (- e) div 2 ^ k = n * 2 ^ i"
      by (subst n_eq) simp
    have md: "n * 2 ^ j * 2 ^ nat (- e) mod 2 ^ k = 0"
      by (subst n_eq) simp
    have "round_pos (n * 2 ^ j) (2 ^ k) = (n * 2 ^ i, e)"
      using nz False dv md
      by (simp add: round_pos_def Let_def e_def [symmetric])
    moreover have "int i + e = int j - int k" using False e_le by (simp add: i_def)
    ultimately show ?thesis by blast
  qed
qed

lemma real_of_dbl_shift:
  assumes "int i + e = - 1"
  shows "real_of_dbl (n * 2 ^ i, e) = real_of_int n / 2"
proof -
  from assms have e: "nat (- e) = Suc i" and neg: "\<not> 0 \<le> e" by simp_all
  show ?thesis using neg by (simp add: real_of_dbl_def e)
qed

lemma py_half_exact:
  assumes "0 < n" and "n < 2 ^ 53"
  shows "real_of_dbl (dbl_mul (float_of_int n) (dbl_round 1 2)) = real_of_int n / 2"
proof -
  from round_pos_exact [OF assms, of 0 0]
  obtain i e where f: "round_pos n 1 = (n * 2 ^ i, e)" and ie: "int i + e = 0" by auto
  have half: "dbl_round 1 2 = (4503599627370496, - 53)" by code_simp
  from ie have e: "e = - int i" by simp
  have prod: "n * 2 ^ i * 4503599627370496 = n * 2 ^ (i + 52)" by (simp add: power_add)
  from round_pos_exact [OF assms, of "i + 52" "53 + i"]
  obtain i' e' where g: "round_pos (n * 2 ^ (i + 52)) (2 ^ (53 + i)) = (n * 2 ^ i', e')"
    and ie': "int i' + e' = - 1" by auto
  have fl: "float_of_int n = (n * 2 ^ i, - int i)"
    using assms(1) f by (simp add: float_of_int_def dbl_round_def e)
  have "dbl_mul (float_of_int n) (dbl_round 1 2) = dbl_round (n * 2 ^ (i + 52)) (2 ^ (53 + i))"
    by (simp add: dbl_mul_def fl half dbl_scaled_def prod nat_add_distrib)
  also have "\<dots> = (n * 2 ^ i', e')"
  proof -
    have "\<not> n * 2 ^ (i + 52) < 0" using assms(1) by (simp add: mult_less_0_iff)
    then show ?thesis using g by (simp only: dbl_round_def if_False)
  qed
  finally show ?thesis using real_of_dbl_shift [OF ie'] by simp
qed





lemma pow2_powr: "(2::real) ^ k = 2 powr real k"
  by (simp add: powr_realpow)















lemma dbl_le_int_iff: "dbl_le_int d n \<longleftrightarrow> real_of_dbl d \<le> real_of_int n"
proof (cases d)
  case (Pair m e)
  show ?thesis
  proof (cases "0 \<le> e")
    case True
    have "(m * 2 ^ nat e \<le> n) \<longleftrightarrow> (real_of_int (m * 2 ^ nat e) \<le> real_of_int n)"
      by (simp only: of_int_le_iff)
    then show ?thesis using True by (simp only: Pair dbl_le_int_def real_of_dbl_def split if_True)
  next
    case False
    have "(real_of_int m / 2 ^ nat (- e) \<le> real_of_int n)
            \<longleftrightarrow> (real_of_int m \<le> real_of_int (n * 2 ^ nat (- e)))"
      by (simp add: pos_divide_le_eq)
    also have "\<dots> \<longleftrightarrow> m \<le> n * 2 ^ nat (- e)"
      by (rule of_int_le_iff)
    finally show ?thesis using False by (simp add: Pair dbl_le_int_def real_of_dbl_def)
  qed
qed


subsection \<open>C1: the quality assessor on entry counts\<close>

text \<open>
  C1. For every pair of entry counts \<open>(valid, total)\<close> with \<open>0 \<le> valid \<le> total\<close>, and
  \<open>total\<close> below \<open>2^53\<close> (where the double \<^verbatim>\<open>total * 0.5\<close> is the exact half), the
  assessor returns: unavailable when \<open>total = 0\<close>; invalid when \<open>total > 0\<close> and
  \<open>valid = 0\<close>; valid when \<open>valid = total > 0\<close>; partial when \<open>0 < valid < total\<close> and
  \<open>valid \<ge> total * 0.5\<close>; invalid when \<open>0 < valid < total * 0.5\<close>.
\<close>

theorem assess_quality_cases:
  assumes "0 \<le> valid" and "valid \<le> total_n" and "total_n < 2 ^ 53"
  shows "(total_n = 0 \<longrightarrow> assess_quality valid total_n = UNAVAILABLE)
       \<and> (0 < total_n \<and> valid = 0 \<longrightarrow> assess_quality valid total_n = INVALID)
       \<and> (valid = total_n \<and> 0 < total_n \<longrightarrow> assess_quality valid total_n = VALID)
       \<and> (0 < valid \<and> valid < total_n \<and> real_of_int valid \<ge> real_of_int total_n * 0.5
            \<longrightarrow> assess_quality valid total_n = PARTIAL)
       \<and> (0 < valid \<and> real_of_int valid < real_of_int total_n * 0.5
            \<longrightarrow> assess_quality valid total_n = INVALID)"
proof (cases "total_n = 0")
  case True
  with assms show ?thesis by (simp add: assess_quality_def)
next
  case False
  with assms have "0 < total_n" by simp
  from py_half_exact [OF this assms(3)]
  have "real_of_dbl (dbl_mul (float_of_int total_n) (dbl_round 1 2)) = real_of_int total_n * 0.5"
    by simp
  then have half: "dbl_le_int (dbl_mul (float_of_int total_n) (dbl_round 1 2)) valid
          \<longleftrightarrow> real_of_int total_n * 0.5 \<le> real_of_int valid"
    by (simp only: dbl_le_int_iff)
  show ?thesis
    using assms False unfolding assess_quality_def half by auto
qed

theorem assess_quality_cases_witness:
  "assess_quality 0 0 = UNAVAILABLE
   \<and> assess_quality 0 4 = INVALID
   \<and> assess_quality 4 4 = VALID
   \<and> assess_quality 2 4 = PARTIAL
   \<and> assess_quality 8 10 = PARTIAL
   \<and> assess_quality 1 4 = INVALID"
  using assess_quality_cases [of 0 0] assess_quality_cases [of 0 4]
    assess_quality_cases [of 4 4] assess_quality_cases [of 2 4]
    assess_quality_cases [of 8 10] assess_quality_cases [of 1 4]
  by simp

subsection \<open>Row keys and reachable states\<close>

lemma fold_max_ge: "(s::int) \<le> fold max ids s"
  by (induction ids arbitrary: s) (auto intro: order_trans [OF max.cobounded2])

lemma next_rowid_gt_seq: "seq < next_rowid ids seq"
  using fold_max_ge [of seq ids] by (simp add: next_rowid_def)

lemma insert_forecast_True:
  "fst (insert_forecast db now city forecast_date data_date temp_min temp_max conditions
       conditions_code source_url content_hash) = True"
  by (simp add: insert_forecast_def Let_def list_ex_iff)

lemma insert_forecast_issued:
  assumes "forecast_ids_issued db"
  shows "forecast_ids_issued (snd (insert_forecast db now city forecast_date data_date
       temp_min temp_max conditions conditions_code source_url content_hash))"
proof -
  let ?kept = "filter (\<lambda>r. \<not> same_key city forecast_date r) (city_forecasts db)"
  have "city_forecasts_seq db < next_rowid (map fc_id ?kept) (city_forecasts_seq db)"
    by (rule next_rowid_gt_seq)
  then show ?thesis
    using assms
    by (auto simp: insert_forecast_def Let_def forecast_ids_issued_def list_all_iff list_ex_iff)
qed

lemma reachable_forecast_ids_issued: "reachable db \<Longrightarrow> forecast_ids_issued db"
proof (induction rule: reachable.induct)
  case reachable_empty
  then show ?case by (simp add: empty_database_def forecast_ids_issued_def)
next
  case (reachable_insert_forecast db now city forecast_date data_date temp_min temp_max conditions conditions_code source_url content_hash)
  then show ?case by (simp add: insert_forecast_issued)
next
  case (reachable_insert_alert db now title description published_at link alert_level affected_zones time_range source_url content_hash)
  then show ?case by (simp add: insert_alert_def Let_def forecast_ids_issued_def)
next
  case (reachable_update_source_status db now source_url source_type source_name success data_quality is_fresh entries_count error_message response_time_ms)
  then show ?case
    by (simp add: update_source_status_def Let_def forecast_ids_issued_def split: option.splits)next
  case (reachable_deactivate_old_alerts db is_old)
  then show ?case
    by (simp add: deactivate_old_alerts_def Let_def forecast_ids_issued_def)
qed

subsection \<open>C2: a forecast replaces the rows of its key\<close>

text \<open>
  C2. For every database state (whose keys were handed out by the sequence, as in every
  reachable state) and every call of \<^verbatim>\<open>insert_forecast\<close> that returns True, the
  table afterwards holds exactly one row for the key \<open>(city, forecast_date)\<close>: the
  new one, with the values of the call and a key above every key of the table before.
  Every row that had the key before is gone, whether the new content hash equals the
  old one or not, and the rows of other keys are as they were.
\<close>

theorem insert_forecast_replaces:
  assumes issued: "forecast_ids_issued db"
    and ok: "insert_forecast db now city forecast_date data_date temp_min temp_max conditions
       conditions_code source_url content_hash = (True, db')"
  shows "\<exists>row. filter (same_key city forecast_date) (city_forecasts db') = [row]
      \<and> fc_city row = city \<and> fc_forecast_date row = forecast_date
      \<and> fc_data_date row = data_date \<and> fc_temp_min row = temp_min
      \<and> fc_temp_max row = temp_max \<and> fc_conditions row = conditions
      \<and> fc_conditions_code row = conditions_code \<and> fc_source_url row = source_url
      \<and> fc_content_hash row = content_hash \<and> fc_fetched_at row = now
      \<and> (\<forall>r \<in> set (city_forecasts db). fc_id r < fc_id row)
      \<and> (\<forall>r \<in> set (city_forecasts db).
            same_key city forecast_date r \<longrightarrow> r \<notin> set (city_forecasts db'))
      \<and> filter (\<lambda>r. \<not> same_key city forecast_date r) (city_forecasts db')
          = filter (\<lambda>r. \<not> same_key city forecast_date r) (city_forecasts db)"
proof -
  define kept where "kept = filter (\<lambda>r. \<not> same_key city forecast_date r) (city_forecasts db)"
  define i where "i = next_rowid (map fc_id kept) (city_forecasts_seq db)"
  define row where "row = \<lparr>fc_id = i, fc_city = city, fc_forecast_date = forecast_date,
                       fc_data_date = data_date, fc_temp_min = temp_min,
                       fc_temp_max = temp_max, fc_conditions = conditions,
                       fc_conditions_code = conditions_code, fc_source_url = source_url,
                       fc_content_hash = content_hash, fc_fetched_at = now\<rparr>"
  have nokey: "\<not> list_ex (\<lambda>r. same_key city forecast_date r \<and> fc_content_hash r = content_hash) kept"
    by (auto simp: kept_def list_ex_iff)
  have rows: "city_forecasts db' = kept @ [row]"
    using ok nokey
    unfolding insert_forecast_def Let_def kept_def [symmetric] i_def [symmetric] row_def [symmetric]
    by auto
  have key_row: "same_key city forecast_date row"
    by (simp add: same_key_def row_def)
  have one: "filter (same_key city forecast_date) (city_forecasts db') = [row]"
    using key_row by (simp add: rows kept_def)
  have i_gt: "city_forecasts_seq db < i"
    unfolding i_def by (rule next_rowid_gt_seq)
  have old_lt: "\<forall>r \<in> set (city_forecasts db). fc_id r < fc_id row"
    using issued i_gt by (auto simp: forecast_ids_issued_def list_all_iff row_def)
  have gone: "\<forall>r \<in> set (city_forecasts db).
      same_key city forecast_date r \<longrightarrow> r \<notin> set (city_forecasts db')"
    using old_lt by (auto simp: rows kept_def)
  have others: "filter (\<lambda>r. \<not> same_key city forecast_date r) (city_forecasts db') = kept"
    using key_row by (simp add: rows kept_def)
  show ?thesis
    using one old_lt gone others by (intro exI [of _ row]) (simp add: row_def kept_def)
qed

theorem insert_forecast_replaces_witness:
  "forecast_ids_issued db_example
   \<and> fst (insert_forecast db_example ''2024-04-30 18:00:00'' ''Cluj'' ''2024-05-01''
            ''2024-04-30'' 5 17 ''Rain'' ''r1'' ''u'' ''h1'') = True
   \<and> map (\<lambda>r. (fc_id r, fc_city r, fc_content_hash r, fc_fetched_at r))
        (city_forecasts (snd (insert_forecast db_example ''2024-04-30 18:00:00'' ''Cluj''
            ''2024-05-01'' ''2024-04-30'' 5 17 ''Rain'' ''r1'' ''u'' ''h1'')))
       = [(2, ''Iasi'', ''h2'', ''2024-04-30 06:00:00''),
          (3, ''Cluj'', ''h1'', ''2024-04-30 18:00:00'')]
   \<and> (\<exists>row. filter (same_key ''Cluj'' ''2024-05-01'')
          (city_forecasts (snd (insert_forecast db_example ''2024-04-30 18:00:00'' ''Cluj''
            ''2024-05-01'' ''2024-04-30'' 5 17 ''Rain'' ''r1'' ''u'' ''h1''))) = [row]
        \<and> fc_content_hash row = ''h1'' \<and> fc_fetched_at row = ''2024-04-30 18:00:00'')"
proof -
  let ?r = "insert_forecast db_example ''2024-04-30 18:00:00'' ''Cluj'' ''2024-05-01''
            ''2024-04-30'' 5 17 ''Rain'' ''r1'' ''u'' ''h1''"
  have issued: "forecast_ids_issued db_example"
    by (simp add: forecast_ids_issued_def db_example_def empty_database_def)
  have ok: "?r = (True, snd ?r)"
    using insert_forecast_True [of db_example] by (simp add: prod_eq_iff)
  have rows: "map (\<lambda>r. (fc_id r, fc_city r, fc_content_hash r, fc_fetched_at r))
        (city_forecasts (snd ?r))
       = [(2, ''Iasi'', ''h2'', ''2024-04-30 06:00:00''),
          (3, ''Cluj'', ''h1'', ''2024-04-30 18:00:00'')]"
    by (simp add: insert_forecast_def db_example_def empty_database_def same_key_def
        next_rowid_def Let_def)
  from insert_forecast_replaces [OF issued ok] obtain row where
    "filter (same_key ''Cluj'' ''2024-05-01'') (city_forecasts (snd ?r)) = [row]"
    "fc_content_hash row = ''h1''" "fc_fetched_at row = ''2024-04-30 18:00:00''"
    by blast
  then show ?thesis
    using issued ok rows by (auto simp: prod_eq_iff)
qed

subsection \<open>Source status: helper lemmas\<close>

lemma source_status_insert_forecast:
  "source_status (snd (insert_forecast db now city forecast_date data_date temp_min temp_max
       conditions conditions_code source_url content_hash)) = source_status db"
  by (simp add: insert_forecast_def Let_def)

lemma source_status_insert_alert:
  "source_status (snd (insert_alert db now title description published_at link alert_level
       affected_zones time_range source_url content_hash)) = source_status db"
  by (simp add: insert_alert_def Let_def)

lemma find_status_None:
  "find (\<lambda>r. ss_source_url r = url) (source_status db) = None \<longleftrightarrow> status_rows_of url db = []"
  by (auto simp: status_rows_of_def find_None_iff filter_empty_conv)

lemma update_source_status_fresh:
  assumes "status_rows_of url db = []"
  shows "\<exists>row. source_status (update_source_status db now url source_type source_name success
             data_quality is_fresh entries_count error_message response_time_ms)
           = source_status db @ [row]
         \<and> ss_source_url row = url \<and> ss_fetch_count row = 1
         \<and> ss_success_count row = (if success then 1 else 0)
         \<and> ss_error_count row = (if success then 0 else 1)
         \<and> ss_consecutive_failures row = (if success then 0 else 1)
         \<and> ss_status row = (if success then ''ok'' else ''error'')
         \<and> ss_data_quality row = data_quality
         \<and> ss_last_error row = error_message
         \<and> ss_last_fetch_at row = Some now
         \<and> ss_entries_count row = entries_count"
  using assms by (simp add: update_source_status_def Let_def find_status_None [symmetric])

lemma update_source_status_existing:
  assumes "status_rows_of url db \<noteq> []"
  shows "source_status (update_source_status db now url source_type source_name success
             data_quality is_fresh entries_count error_message response_time_ms)
       = map (\<lambda>r. if ss_source_url r = url
                then r\<lparr>ss_source_type := source_type,
                       ss_source_name := source_name,
                       ss_last_fetch_at := Some now,
                       ss_last_success_at := (if success then Some now else ss_last_success_at r),
                       ss_fetch_count := ss_fetch_count r + 1,
                       ss_success_count := ss_success_count r + (if success then 1 else 0),
                       ss_error_count := ss_error_count r + (if success then 0 else 1),
                       ss_last_error := (if success then None else error_message),
                       ss_status := (if success then ''ok'' else ''error''),
                       ss_data_quality := data_quality,
                       ss_is_fresh := (if is_fresh then 1 else 0),
                       ss_avg_response_time_ms :=
                         (let e = the (find (\<lambda>r. ss_source_url r = url) (source_status db)) in
                          if ss_fetch_count e > 0
                          then (ss_avg_response_time_ms e * ss_fetch_count e + response_time_ms)
                                 sdiv (ss_fetch_count e + 1)
                          else response_time_ms),
                       ss_last_response_time_ms := response_time_ms,
                       ss_consecutive_failures :=
                         (if success then 0
                          else ss_consecutive_failures
                                 (the (find (\<lambda>r. ss_source_url r = url) (source_status db))) + 1),
                       ss_entries_count := entries_count\<rparr>
                else r) (source_status db)"
proof -
  from assms obtain e where "find (\<lambda>r. ss_source_url r = url) (source_status db) = Some e"
    using find_status_None [of url db] by (cases "find (\<lambda>r. ss_source_url r = url) (source_status db)") auto
  then show ?thesis
    by (simp add: update_source_status_def Let_def)
qed

lemma update_source_status_preserves:
  assumes "list_all counts_add_up (source_status db)"
  shows "list_all counts_add_up (source_status (update_source_status db now url source_type
             source_name success data_quality is_fresh entries_count error_message
             response_time_ms))"
  using assms
  by (auto simp: update_source_status_def Let_def list_all_iff counts_add_up_def
      split: option.splits)

lemma reachable_counts_add_up: "reachable db \<Longrightarrow> list_all counts_add_up (source_status db)"
proof (induction rule: reachable.induct)
  case reachable_empty
  then show ?case by (simp add: empty_database_def)
next
  case (reachable_insert_forecast db now city forecast_date data_date temp_min temp_max conditions conditions_code source_url content_hash)
  then show ?case by (simp add: source_status_insert_forecast)
next
  case (reachable_insert_alert db now title description published_at link alert_level affected_zones time_range source_url content_hash)
  then show ?case by (simp add: source_status_insert_alert)
next
  case (reachable_update_source_status db now source_url source_type source_name success data_quality is_fresh entries_count error_message response_time_ms)
  then show ?case by (simp add: update_source_status_preserves)next
  case (reachable_deactivate_old_alerts db is_old)
  then show ?case by (simp add: deactivate_old_alerts_def Let_def)
qed


subsection \<open>C9: the counters of a source add up\<close>

text \<open>
  C9. In every state that the operations reach from the empty database, every row of
  \<^verbatim>\<open>source_status\<close> has \<open>fetch_count = success_count + error_count\<close>. The first
  \<^verbatim>\<open>update_source_status\<close> for a source inserts a row with \<open>fetch_count = 1\<close> and
  exactly one of \<open>success_count\<close>, \<open>error_count\<close> equal to 1; every later one adds 1
  to \<open>fetch_count\<close> and 1 to exactly one of the two, on success and on failure, and
  leaves the rows of other sources alone; so the equation holds again afterwards.
\<close>

theorem source_status_counts_invariant:
  assumes "reachable db"
  shows "list_all counts_add_up (source_status db)
     \<and> (status_rows_of url db = [] \<longrightarrow>
          (\<exists>row. source_status (update_source_status db now url source_type source_name
                     success data_quality is_fresh entries_count error_message
                     response_time_ms) = source_status db @ [row]
             \<and> ss_source_url row = url
             \<and> counters row = (1, if success then 1 else 0, if success then 0 else 1)))
     \<and> (status_rows_of url db \<noteq> [] \<longrightarrow>
          map (\<lambda>r. (ss_source_url r, counters r))
            (source_status (update_source_status db now url source_type source_name
               success data_quality is_fresh entries_count error_message response_time_ms))
          = map (\<lambda>r. (ss_source_url r,
                   if ss_source_url r = url
                   then (ss_fetch_count r + 1,
                         ss_success_count r + (if success then 1 else 0),
                         ss_error_count r + (if success then 0 else 1))
                   else counters r))
              (source_status db))
     \<and> list_all counts_add_up
          (source_status (update_source_status db now url source_type source_name success
             data_quality is_fresh entries_count error_message response_time_ms))"
proof -
  have inv: "list_all counts_add_up (source_status db)"
    using assms by (rule reachable_counts_add_up)
  have fresh: "status_rows_of url db = [] \<longrightarrow>
          (\<exists>row. source_status (update_source_status db now url source_type source_name
                     success data_quality is_fresh entries_count error_message
                     response_time_ms) = source_status db @ [row]
             \<and> ss_source_url row = url
             \<and> counters row = (1, if success then 1 else 0, if success then 0 else 1))"
  proof
    assume "status_rows_of url db = []"
    from update_source_status_fresh [OF this, of now source_type source_name success
        data_quality is_fresh entries_count error_message response_time_ms]
    show "\<exists>row. source_status (update_source_status db now url source_type source_name
                     success data_quality is_fresh entries_count error_message
                     response_time_ms) = source_status db @ [row]
             \<and> ss_source_url row = url
             \<and> counters row = (1, if success then 1 else 0, if success then 0 else 1)"
      by (auto simp: counters_def)
  qed
  have existing: "status_rows_of url db \<noteq> [] \<longrightarrow>
          map (\<lambda>r. (ss_source_url r, counters r))
            (source_status (update_source_status db now url source_type source_name
               success data_quality is_fresh entries_count error_message response_time_ms))
          = map (\<lambda>r. (ss_source_url r,
                   if ss_source_url r = url
                   then (ss_fetch_count r + 1,
                         ss_success_count r + (if success then 1 else 0),
                         ss_error_count r + (if success then 0 else 1))
                   else counters r))
              (source_status db)"
    by (simp add: update_source_status_existing counters_def)
  show ?thesis
    using inv fresh existing update_source_status_preserves [OF inv] by blast
qed

lemma status_example_reachable: "reachable status_example"
  unfolding status_example_def by (intro reachable.intros)

theorem source_status_counts_invariant_witness:
  "reachable empty_database \<and> reachable status_example
   \<and> status_rows_of ''http://feed'' empty_database = []
   \<and> status_rows_of ''http://feed'' status_example \<noteq> []
   \<and> map counters (source_status status_example) = [(1, 0, 1)]
   \<and> list_all counts_add_up (source_status status_example)
   \<and> map counters (source_status (update_source_status status_example
         ''2024-05-01T11:00:00'' ''http://feed'' ''forecast'' ''Feed'' True ''valid'' True 4
         None 120)) = [(2, 1, 1)]
   \<and> list_all counts_add_up (source_status (update_source_status status_example
         ''2024-05-01T11:00:00'' ''http://feed'' ''forecast'' ''Feed'' True ''valid'' True 4
         None 120))"
proof -
  have none: "status_rows_of ''http://feed'' empty_database = []"
    by (simp add: status_rows_of_def empty_database_def)
  have rows: "status_rows_of ''http://feed'' status_example \<noteq> []"
    by (simp add: status_rows_of_def status_example_def update_source_status_def
        empty_database_def Let_def)
  from source_status_counts_invariant [OF reachable_empty,
      of "''http://feed''" "''2024-05-01T10:00:00''" "''forecast''" "''Feed''" False
        "''unavailable''" False 0 "Some ''Request timed out after 15s''" 15000] none
  obtain row where "source_status status_example = source_status empty_database @ [row]"
    and "counters row = (1, 0, 1)"
    unfolding status_example_def by auto
  then have c1: "map counters (source_status status_example) = [(1, 0, 1)]"
    by (simp add: empty_database_def)
  from source_status_counts_invariant [OF status_example_reachable,
      of "''http://feed''" "''2024-05-01T11:00:00''" "''forecast''" "''Feed''" True "''valid''"
        True 4 None 120] rows
  have inv: "list_all counts_add_up (source_status status_example)"
    and step: "map (\<lambda>r. (ss_source_url r, counters r))
        (source_status (update_source_status status_example
         ''2024-05-01T11:00:00'' ''http://feed'' ''forecast'' ''Feed'' True ''valid'' True 4
         None 120))
      = map (\<lambda>r. (ss_source_url r,
                   if ss_source_url r = ''http://feed''
                   then (ss_fetch_count r + 1, ss_success_count r + (if True then 1 else 0),
                         ss_error_count r + (if True then 0 else 1))
                   else counters r)) (source_status status_example)"
    and inv': "list_all counts_add_up (source_status (update_source_status status_example
         ''2024-05-01T11:00:00'' ''http://feed'' ''forecast'' ''Feed'' True ''valid'' True 4
         None 120))"
    by blast+
  have "map snd (map (\<lambda>r. (ss_source_url r, counters r))
        (source_status (update_source_status status_example
         ''2024-05-01T11:00:00'' ''http://feed'' ''forecast'' ''Feed'' True ''valid'' True 4
         None 120))) = [(2, 1, 1)]"
    unfolding step
    by (simp add: status_example_def update_source_status_def empty_database_def Let_def
        counters_def)
  then have c2: "map counters (source_status (update_source_status status_example
         ''2024-05-01T11:00:00'' ''http://feed'' ''forecast'' ''Feed'' True ''valid'' True 4
         None 120)) = [(2, 1, 1)]"
    by (simp add: comp_def)
  show ?thesis
    using reachable_empty status_example_reachable none rows c1 inv c2 inv' by simp
qed

subsection \<open>C4: one failure, then one success\<close>




subsection \<open>Alerts: helper lemmas\<close>

lemma insert_alert_known:
  assumes "content_hash \<in> known_hashes db"
  shows "insert_alert db now title description published_at link alert_level affected_zones
           time_range source_url content_hash = (False, db)"
  using assms by (auto simp: insert_alert_def known_hashes_def list_ex_iff)

lemma insert_alert_unknown:
  assumes "content_hash \<notin> known_hashes db"
  shows "insert_alert db now title description published_at link alert_level affected_zones
           time_range source_url content_hash
         = (True,
            db\<lparr>weather_alerts := weather_alerts db @
                 [\<lparr>wa_id = next_rowid (map wa_id (weather_alerts db)) (weather_alerts_seq db),
                   wa_title = title, wa_description = description,
                   wa_published_at = published_at, wa_link = link,
                   wa_alert_level = alert_level, wa_affected_zones = affected_zones,
                   wa_time_range = time_range, wa_source_url = source_url,
                   wa_content_hash = content_hash, wa_fetched_at = now,
                   wa_is_active = 1\<rparr>],
               weather_alerts_seq :=
                 next_rowid (map wa_id (weather_alerts db)) (weather_alerts_seq db)\<rparr>)"
  using assms by (auto simp: insert_alert_def known_hashes_def list_ex_iff Let_def)

lemma insert_alert_hashes:
  "known_hashes (snd (insert_alert db now title description published_at link alert_level
      affected_zones time_range source_url content_hash)) = insert content_hash (known_hashes db)"
proof (cases "content_hash \<in> known_hashes db")
  case True
  then show ?thesis by (auto simp: insert_alert_known)
next
  case False
  then show ?thesis by (simp add: insert_alert_unknown) (simp add: known_hashes_def)
qed

lemma store_alerts_hashes:
  "known_hashes (snd (store_alerts db now alerts added))
     = known_hashes db \<union> set (map al_content_hash alerts)"
proof (induction alerts arbitrary: db added)
  case Nil
  then show ?case by simp
next
  case (Cons alert rest)
  obtain inserted db' where step: "insert_alert db now (al_title alert) (al_description alert)
             (al_published_at alert) (al_link alert) (al_alert_level alert)
             (al_affected_zones alert) (al_time_range alert) (al_source_url alert)
             (al_content_hash alert) = (inserted, db')"
    by (cases "insert_alert db now (al_title alert) (al_description alert)
             (al_published_at alert) (al_link alert) (al_alert_level alert)
             (al_affected_zones alert) (al_time_range alert) (al_source_url alert)
             (al_content_hash alert)") auto
  have "known_hashes db' = insert (al_content_hash alert) (known_hashes db)"
    using insert_alert_hashes [of db now "al_title alert" "al_description alert"
        "al_published_at alert" "al_link alert" "al_alert_level alert"
        "al_affected_zones alert" "al_time_range alert" "al_source_url alert"
        "al_content_hash alert"] step by simp
  then show ?case
    using Cons.IH [of db'] by (simp add: step)
qed

lemma store_alerts_known:
  assumes "set (map al_content_hash alerts) \<subseteq> known_hashes db"
  shows "store_alerts db now alerts added = (added, db)"
  using assms
proof (induction alerts arbitrary: added)
  case Nil
  then show ?case by simp
next
  case (Cons alert rest)
  then have "al_content_hash alert \<in> known_hashes db" by simp
  then show ?case
    using Cons by (simp add: insert_alert_known)
qed

lemma known_hashes_update_source_status:
  "known_hashes (update_source_status db now source_url source_type source_name success
       data_quality is_fresh entries_count error_message response_time_ms) = known_hashes db"
  by (simp add: update_source_status_def known_hashes_def Let_def split: option.splits)

lemma fetch_alerts_records:
  "fst (fst (fetch_alerts lib self env))
     = (case outcome env of
          Response content response_time \<Rightarrow>
            (case parse_alert_rss lib content of Inl e \<Rightarrow> [] | Inr parsed \<Rightarrow> fst parsed)
        | _ \<Rightarrow> [])"
  by (cases "outcome env")
     (auto simp: fetch_alerts_def Let_def split: sum.splits prod.splits)

lemma scheduler_fetch_alerts_added:
  "res_entries_added (fst (scheduler_fetch_alerts lib self env))
     = fst (store_alerts (database self) (db_now env) (fst (fst (fetch_alerts lib (fetcher self) env))) 0)"
  by (simp add: scheduler_fetch_alerts_def Let_def split: prod.splits)

lemma scheduler_fetch_alerts_hashes:
  "known_hashes (database (snd (scheduler_fetch_alerts lib self env)))
     = known_hashes (database self)
         \<union> set (map al_content_hash (fst (fst (fetch_alerts lib (fetcher self) env))))"
proof -
  obtain alerts metadata fetcher' where f: "fetch_alerts lib (fetcher self) env = ((alerts, metadata), fetcher')"
    by (metis prod.collapse)
  obtain added db1 where st: "store_alerts (database self) (db_now env) alerts 0 = (added, db1)"
    by (metis prod.collapse)
  have "known_hashes db1 = known_hashes (database self) \<union> set (map al_content_hash alerts)"
    using store_alerts_hashes [of "database self" "db_now env" alerts 0] st by simp
  then show ?thesis
    by (simp add: scheduler_fetch_alerts_def f st Let_def known_hashes_update_source_status)
qed

lemma hash_new: "''h'' \<notin> known_hashes empty_database"
  by (simp add: known_hashes_def empty_database_def)

lemma example_first_run_adds_one: "res_entries_added (fst (scheduler_fetch_alerts lib_example (new_scheduler empty_database)
          (env_example (Response ''<rss/>'' 120) ''2024-05-01T10:00:00''))) = 1"
  by code_simp

subsection \<open>C3: an alert fingerprint is stored once\<close>

text \<open>
  C3. For every database state and every alert record: a call of \<^verbatim>\<open>insert_alert\<close>
  with a fingerprint the table does not hold returns True and appends one row; a call
  with a fingerprint the table holds returns False and leaves the database as it is. So
  after any first call, every later call with the same \<^verbatim>\<open>content_hash\<close>, whatever its
  other arguments, returns False and changes nothing, two calls insert at most one row,
  and the table never gains a second row of that fingerprint. A second run of
  \<^verbatim>\<open>_fetch_alerts\<close> on the same payload reports \<open>entries_added = 0\<close>.
\<close>

theorem insert_alert_deduplicates:
  "(content_hash \<notin> known_hashes db \<longrightarrow>
      (\<exists>row db1.
         insert_alert db now title description published_at link alert_level affected_zones
           time_range source_url content_hash = (True, db1)
         \<and> weather_alerts db1 = weather_alerts db @ [row]
         \<and> wa_content_hash row = content_hash \<and> wa_title row = title
         \<and> wa_is_active row = 1))
   \<and> (content_hash \<in> known_hashes db \<longrightarrow>
        insert_alert db now title description published_at link alert_level affected_zones
          time_range source_url content_hash = (False, db))
   \<and> (let db1 = snd (insert_alert db now title description published_at link alert_level
                       affected_zones time_range source_url content_hash)
       in length (weather_alerts db1) \<le> length (weather_alerts db) + 1
          \<and> length (filter (\<lambda>r. wa_content_hash r = content_hash) (weather_alerts db1))
              = max 1 (length (filter (\<lambda>r. wa_content_hash r = content_hash) (weather_alerts db)))
          \<and> insert_alert db1 now' title' description' published_at' link' alert_level'
               affected_zones' time_range' source_url' content_hash = (False, db1))
   \<and> (outcome env1 = Response content time1 \<and> outcome env2 = Response content time2 \<longrightarrow>
        res_entries_added
          (fst (scheduler_fetch_alerts lib (snd (scheduler_fetch_alerts lib self env1)) env2))
        = 0)"
proof -
  let ?db1 = "snd (insert_alert db now title description published_at link alert_level
                       affected_zones time_range source_url content_hash)"
  have first: "content_hash \<notin> known_hashes db \<longrightarrow>
      (\<exists>row db1.
         insert_alert db now title description published_at link alert_level affected_zones
           time_range source_url content_hash = (True, db1)
         \<and> weather_alerts db1 = weather_alerts db @ [row]
         \<and> wa_content_hash row = content_hash \<and> wa_title row = title
         \<and> wa_is_active row = 1)"
    by (simp add: insert_alert_unknown)
  have again: "content_hash \<in> known_hashes db \<longrightarrow>
        insert_alert db now title description published_at link alert_level affected_zones
          time_range source_url content_hash = (False, db)"
    by (simp add: insert_alert_known)
  have known1: "content_hash \<in> known_hashes ?db1"
    by (simp add: insert_alert_hashes)
  have len: "length (weather_alerts ?db1) \<le> length (weather_alerts db) + 1"
    by (cases "content_hash \<in> known_hashes db")
       (simp_all add: insert_alert_known insert_alert_unknown)
  have cnt: "length (filter (\<lambda>r. wa_content_hash r = content_hash) (weather_alerts ?db1))
              = max 1 (length (filter (\<lambda>r. wa_content_hash r = content_hash) (weather_alerts db)))"
  proof (cases "content_hash \<in> known_hashes db")
    case True
    then have "filter (\<lambda>r. wa_content_hash r = content_hash) (weather_alerts db) \<noteq> []"
      by (auto simp: known_hashes_def filter_empty_conv)
    then have "1 \<le> length (filter (\<lambda>r. wa_content_hash r = content_hash) (weather_alerts db))"
      by (simp add: Suc_le_eq)
    then show ?thesis using True by (simp add: insert_alert_known max_def)
  next
    case False
    then have "filter (\<lambda>r. wa_content_hash r = content_hash) (weather_alerts db) = []"
      by (auto simp: known_hashes_def filter_empty_conv)
    then show ?thesis using False by (simp add: insert_alert_unknown)
  qed
  have second: "insert_alert ?db1 now' title' description' published_at' link' alert_level'
               affected_zones' time_range' source_url' content_hash = (False, ?db1)"
    using known1 by (rule insert_alert_known)
  have runs: "outcome env1 = Response content time1 \<and> outcome env2 = Response content time2 \<longrightarrow>
        res_entries_added
          (fst (scheduler_fetch_alerts lib (snd (scheduler_fetch_alerts lib self env1)) env2))
        = 0"
  proof
    assume same: "outcome env1 = Response content time1 \<and> outcome env2 = Response content time2"
    let ?s1 = "snd (scheduler_fetch_alerts lib self env1)"
    let ?alerts = "case parse_alert_rss lib content of Inl e \<Rightarrow> [] | Inr parsed \<Rightarrow> fst parsed"
    have a1: "fst (fst (fetch_alerts lib (fetcher self) env1)) = ?alerts"
      using same by (simp add: fetch_alerts_records)
    have a2: "fst (fst (fetch_alerts lib (fetcher ?s1) env2)) = ?alerts"
      using same by (simp add: fetch_alerts_records)
    have "set (map al_content_hash ?alerts) \<subseteq> known_hashes (database ?s1)"
      using scheduler_fetch_alerts_hashes [of lib self env1] a1 by simp
    then have "store_alerts (database ?s1) (db_now env2) ?alerts 0 = (0, database ?s1)"
      by (rule store_alerts_known)
    then show "res_entries_added (fst (scheduler_fetch_alerts lib ?s1 env2)) = 0"
      by (simp add: scheduler_fetch_alerts_added a2)
  qed
  show ?thesis
    using first again len cnt second runs by (simp add: Let_def)
qed

theorem insert_alert_deduplicates_witness:
  "''h'' \<notin> known_hashes empty_database
   \<and> fst (insert_alert empty_database ''2024-05-01 10:00:00'' ''Cod galben'' ''vant''
       None None (Some ''YELLOW'') None None ''http://feed'' ''h'') = True
   \<and> map wa_content_hash (weather_alerts one_alert) = [''h'']
   \<and> ''h'' \<in> known_hashes one_alert
   \<and> insert_alert one_alert ''2024-05-01 10:10:00'' ''Cod galben'' ''vant''
       None None (Some ''YELLOW'') None None ''http://feed'' ''h'' = (False, one_alert)
   \<and> res_entries_added (fst (scheduler_fetch_alerts lib_example (new_scheduler empty_database)
          (env_example (Response ''<rss/>'' 120) ''2024-05-01T10:00:00''))) = 1
   \<and> res_entries_added (fst (scheduler_fetch_alerts lib_example
          (snd (scheduler_fetch_alerts lib_example (new_scheduler empty_database)
             (env_example (Response ''<rss/>'' 120) ''2024-05-01T10:00:00'')))
          (env_example (Response ''<rss/>'' 95) ''2024-05-01T10:10:00''))) = 0"
proof -
  note thm1 = insert_alert_deduplicates [of "''h''" empty_database "''2024-05-01 10:00:00''"
      "''Cod galben''" "''vant''" None None "Some ''YELLOW''" None None "''http://feed''"
      "''2024-05-01 10:10:00''" "''Cod galben''" "''vant''" None None "Some ''YELLOW''" None
      None "''http://feed''"
      "env_example (Response ''<rss/>'' 120) ''2024-05-01T10:00:00''" "''<rss/>''" 120
      "env_example (Response ''<rss/>'' 95) ''2024-05-01T10:10:00''" 95
      lib_example "new_scheduler empty_database"]
  note thm2 = insert_alert_deduplicates [of "''h''" one_alert "''2024-05-01 10:10:00''"
      "''Cod galben''" "''vant''" None None "Some ''YELLOW''" None None "''http://feed''"]
  have first: "fst (insert_alert empty_database ''2024-05-01 10:00:00'' ''Cod galben'' ''vant''
       None None (Some ''YELLOW'') None None ''http://feed'' ''h'') = True"
    using thm1 hash_new by auto
  have rows: "map wa_content_hash (weather_alerts one_alert) = [''h'']"
    using thm1 hash_new by (auto simp: one_alert_def empty_database_def)
  then have known: "''h'' \<in> known_hashes one_alert"
    by (simp add: known_hashes_def)
  have second: "insert_alert one_alert ''2024-05-01 10:10:00'' ''Cod galben'' ''vant''
       None None (Some ''YELLOW'') None None ''http://feed'' ''h'' = (False, one_alert)"
    using thm2 known by blast
  have run2: "res_entries_added (fst (scheduler_fetch_alerts lib_example
          (snd (scheduler_fetch_alerts lib_example (new_scheduler empty_database)
             (env_example (Response ''<rss/>'' 120) ''2024-05-01T10:00:00'')))
          (env_example (Response ''<rss/>'' 95) ''2024-05-01T10:10:00''))) = 0"
    using thm1 by (simp add: env_example_def)
  show ?thesis
    using hash_new first rows known second example_first_run_adds_one run2 by simp
qed

subsection \<open>The fetch operations: helper lemmas\<close>

lemma assess_quality_not_stale: "assess_quality valid total_n \<noteq> STALE"
  by (simp add: assess_quality_def)

lemma validate_parse_ok:
  "validate_xml_structure lib content \<Longrightarrow> \<exists>p. parse_forecast_xml lib content = Inr p"
proof -
  assume "validate_xml_structure lib content"
  then obtain root_elem where "ET_fromstring lib content = Inr root_elem"
    by (cases "ET_fromstring lib content")
       (auto simp: validate_xml_structure_def Let_def split: if_splits)
  then have "parse_forecast_xml lib content
      = Inr (localitate_loop lib (xml_findall_descendants root_elem ''localitate'') ([], 0, 0))"
    by (simp add: parse_forecast_xml_def)
  then show ?thesis by (rule exI)
qed

lemma fetch_forecasts_failure:
  assumes "forecast_fetch_fails lib env"
  shows "\<exists>e. fetch_forecasts lib self env
           = (([], failed_metadata ANM_FORECAST_XML_URL FORECAST env e),
              self\<lparr>last_fetch_metadata := (last_fetch_metadata self)
                     (ANM_FORECAST_XML_URL \<mapsto> failed_metadata ANM_FORECAST_XML_URL FORECAST env e)\<rparr>)"
  using assms
  by (cases "outcome env")
     (auto simp: forecast_fetch_fails_def fetch_forecasts_def Let_def)

lemma fetch_forecasts_success:
  assumes "\<not> forecast_fetch_fails lib env"
  shows "\<exists>forecasts valid_count total_count response_time fetcher'.
           fetch_forecasts lib self env
           = ((forecasts,
               \<lparr>md_source_url = ANM_FORECAST_XML_URL, md_source_type = FORECAST,
                md_fetch_time = fetch_start env, md_success = True,
                md_entries_count = total_count, md_valid_entries = valid_count,
                md_error_message = None, md_response_time_ms = response_time,
                md_data_quality = assess_quality valid_count total_count, md_is_fresh = True,
                md_last_modified = None\<rparr>), fetcher')"
proof (cases "outcome env")
  case (Response content response_time)
  with assms have v: "validate_xml_structure lib content"
    by (simp add: forecast_fetch_fails_def)
  from validate_parse_ok [OF this] obtain p where p: "parse_forecast_xml lib content = Inr p"
    by blast
  obtain forecasts valid_count total_count where "p = (forecasts, valid_count, total_count)"
    by (cases p) auto
  with Response v p show ?thesis
    by (simp add: fetch_forecasts_def Let_def)
qed (use assms in \<open>simp_all add: forecast_fetch_fails_def\<close>)

lemma parse_alert_rss_Inl:
  "(\<exists>e. parse_alert_rss lib content = Inl e)
     \<longleftrightarrow> bozo (feedparser_parse lib content) \<and> entries (feedparser_parse lib content) = []"
  by (simp add: parse_alert_rss_def Let_def)

lemma fetch_alerts_failure:
  assumes "alert_fetch_fails lib env"
  shows "\<exists>e. fetch_alerts lib self env
           = (([], failed_metadata ANM_ALERTS_RSS_URL ALERT env e),
              self\<lparr>last_fetch_metadata := (last_fetch_metadata self)
                     (ANM_ALERTS_RSS_URL \<mapsto> failed_metadata ANM_ALERTS_RSS_URL ALERT env e)\<rparr>)"
  using assms
  by (cases "outcome env")
     (auto simp: alert_fetch_fails_def fetch_alerts_def parse_alert_rss_def Let_def)

lemma fetch_alerts_success:
  assumes "\<not> alert_fetch_fails lib env"
  shows "\<exists>alerts valid_count total_count response_time fetcher'.
           fetch_alerts lib self env
           = ((alerts,
               \<lparr>md_source_url = ANM_ALERTS_RSS_URL, md_source_type = ALERT,
                md_fetch_time = fetch_start env, md_success = True,
                md_entries_count = total_count, md_valid_entries = valid_count,
                md_error_message = None, md_response_time_ms = response_time,
                md_data_quality = assess_quality valid_count total_count, md_is_fresh = True,
                md_last_modified = None\<rparr>), fetcher')"
proof (cases "outcome env")
  case (Response content response_time)
  with assms have "\<not> (bozo (feedparser_parse lib content) \<and> entries (feedparser_parse lib content) = [])"
    by (simp add: alert_fetch_fails_def)
  then obtain p where p: "parse_alert_rss lib content = Inr p"
    by (auto simp: parse_alert_rss_def Let_def)
  obtain alerts valid_count total_count where "p = (alerts, valid_count, total_count)"
    by (cases p) auto
  with Response p show ?thesis
    by (simp add: fetch_alerts_def Let_def)
qed (use assms in \<open>simp_all add: alert_fetch_fails_def\<close>)

lemma example_forecast_fails: "forecast_fetch_fails lib_example (env_example Timeout ''2024-05-01T10:00:00'')"
  by (simp add: forecast_fetch_fails_def env_example_def)

lemma example_alert_ok:
  "\<not> alert_fetch_fails lib_example (env_example (Response ''<rss/>'' 120) ''2024-05-01T10:00:00'')"
  by (simp add: alert_fetch_fails_def env_example_def lib_example_def feed_example_def)

lemma example_alert_fails: "alert_fetch_fails lib_example (env_example Timeout ''2024-05-01T10:00:00'')"
  by (simp add: alert_fetch_fails_def env_example_def)

lemma update_source_status_failure_row:
  "\<exists>row \<in> set (source_status (update_source_status db now url source_type source_name False
        data_quality is_fresh entries_count error_message response_time_ms)).
     ss_source_url row = url \<and> ss_source_type row = source_type
     \<and> ss_status row = ''error''
     \<and> ss_data_quality row = data_quality
     \<and> ss_is_fresh row = (if is_fresh then 1 else 0)
     \<and> ss_last_fetch_at row = Some now
     \<and> ss_last_error row = error_message
     \<and> ss_last_response_time_ms row = response_time_ms
     \<and> ss_entries_count row = entries_count"
proof (cases "find (\<lambda>r. ss_source_url r = url) (source_status db)")
  case None
  then show ?thesis
    by (simp add: update_source_status_def Let_def)
next
  case (Some existing)
  then have mem: "existing \<in> set (source_status db)" and url: "ss_source_url existing = url"
    by (auto simp: find_Some_iff)
  define f where "f = (\<lambda>r::status_row. if ss_source_url r = url
       then r\<lparr>ss_source_type := source_type, ss_source_name := source_name,
              ss_last_fetch_at := Some now, ss_last_success_at := ss_last_success_at r,
              ss_fetch_count := ss_fetch_count r + 1,
              ss_success_count := ss_success_count r + 0,
              ss_error_count := ss_error_count r + 1,
              ss_last_error := error_message, ss_status := ''error'',
              ss_data_quality := data_quality,
              ss_is_fresh := (if is_fresh then 1 else 0),
              ss_avg_response_time_ms :=
                (if ss_fetch_count existing > 0
                 then (ss_avg_response_time_ms existing * ss_fetch_count existing
                        + response_time_ms) sdiv (ss_fetch_count existing + 1)
                 else response_time_ms),
              ss_last_response_time_ms := response_time_ms,
              ss_consecutive_failures := ss_consecutive_failures existing + 1,
              ss_entries_count := entries_count\<rparr>
       else r)"
  have eq: "source_status (update_source_status db now url source_type source_name False
        data_quality is_fresh entries_count error_message response_time_ms)
      = map f (source_status db)"
    using Some by (simp add: update_source_status_def Let_def f_def)
  have "f existing \<in> set (map f (source_status db))"
    using mem by simp
  moreover have "ss_source_url (f existing) = url \<and> ss_source_type (f existing) = source_type
     \<and> ss_status (f existing) = ''error''
     \<and> ss_data_quality (f existing) = data_quality
     \<and> ss_is_fresh (f existing) = (if is_fresh then 1 else 0)
     \<and> ss_last_fetch_at (f existing) = Some now
     \<and> ss_last_error (f existing) = error_message
     \<and> ss_last_response_time_ms (f existing) = response_time_ms
     \<and> ss_entries_count (f existing) = entries_count"
    using url by (simp add: f_def)
  ultimately show ?thesis
    unfolding eq by blast
qed

lemma fetch_forecasts_outcome_only:
  assumes "outcome env' = outcome env"
  shows "md_data_quality (snd (fst (fetch_forecasts lib self' env')))
           = md_data_quality (snd (fst (fetch_forecasts lib self env)))
         \<and> md_is_fresh (snd (fst (fetch_forecasts lib self' env')))
           = md_is_fresh (snd (fst (fetch_forecasts lib self env)))"
  by (cases "outcome env")
     (simp_all add: fetch_forecasts_def Let_def assms failed_metadata_def
        split: sum.splits prod.splits)

lemma fetch_alerts_outcome_only:
  assumes "outcome env' = outcome env"
  shows "md_data_quality (snd (fst (fetch_alerts lib self' env')))
           = md_data_quality (snd (fst (fetch_alerts lib self env)))
         \<and> md_is_fresh (snd (fst (fetch_alerts lib self' env')))
           = md_is_fresh (snd (fst (fetch_alerts lib self env)))"
  by (cases "outcome env")
     (simp_all add: fetch_alerts_def Let_def assms failed_metadata_def
        split: sum.splits prod.splits)

subsection \<open>C10: freshness is success, and no quality is stale\<close>

text \<open>
  C10. For every fetch of forecasts or alerts, the flag \<^verbatim>\<open>is_fresh\<close> of the metadata
  equals its flag \<^verbatim>\<open>success\<close>, which is True exactly when the network call and the
  validation of the document succeeded, and the assessed quality is never \<open>STALE\<close>.
  Neither operation has the age of the data or the constants
  \<open>FORECAST_FRESHNESS_HOURS\<close> and \<open>ALERT_FRESHNESS_HOURS\<close> among what it reads: two
  fetches that get the same answer from the network report the same quality and the same
  freshness, whatever the clocks of the two runs show (\<open>fetch_start\<close>, \<open>elapsed_ms\<close>,
  \<open>db_now\<close>, \<open>status_now\<close>) and whatever the state of the fetcher.
\<close>

theorem freshness_follows_success:
  "md_is_fresh (snd (fst (fetch_forecasts lib self env)))
     = md_success (snd (fst (fetch_forecasts lib self env)))
   \<and> md_success (snd (fst (fetch_forecasts lib self env))) = (\<not> forecast_fetch_fails lib env)
   \<and> md_data_quality (snd (fst (fetch_forecasts lib self env))) \<noteq> STALE
   \<and> md_is_fresh (snd (fst (fetch_alerts lib self env)))
     = md_success (snd (fst (fetch_alerts lib self env)))
   \<and> md_success (snd (fst (fetch_alerts lib self env))) = (\<not> alert_fetch_fails lib env)
   \<and> md_data_quality (snd (fst (fetch_alerts lib self env))) \<noteq> STALE
   \<and> (\<forall>self' env'. outcome env' = outcome env \<longrightarrow>
         md_data_quality (snd (fst (fetch_forecasts lib self' env')))
           = md_data_quality (snd (fst (fetch_forecasts lib self env)))
         \<and> md_is_fresh (snd (fst (fetch_forecasts lib self' env')))
           = md_is_fresh (snd (fst (fetch_forecasts lib self env))))
   \<and> (\<forall>self' env'. outcome env' = outcome env \<longrightarrow>
         md_data_quality (snd (fst (fetch_alerts lib self' env')))
           = md_data_quality (snd (fst (fetch_alerts lib self env)))
         \<and> md_is_fresh (snd (fst (fetch_alerts lib self' env')))
           = md_is_fresh (snd (fst (fetch_alerts lib self env))))"
proof -
  have f: "md_is_fresh (snd (fst (fetch_forecasts lib self env)))
       = md_success (snd (fst (fetch_forecasts lib self env)))
     \<and> md_success (snd (fst (fetch_forecasts lib self env))) = (\<not> forecast_fetch_fails lib env)
     \<and> md_data_quality (snd (fst (fetch_forecasts lib self env))) \<noteq> STALE"
  proof (cases "forecast_fetch_fails lib env")
    case True
    from fetch_forecasts_failure [OF this, of self] show ?thesis
      using True by (auto simp: failed_metadata_def)
  next
    case False
    from fetch_forecasts_success [OF this, of self] show ?thesis
      using False by (auto simp: assess_quality_not_stale)
  qed
  have a: "md_is_fresh (snd (fst (fetch_alerts lib self env)))
       = md_success (snd (fst (fetch_alerts lib self env)))
     \<and> md_success (snd (fst (fetch_alerts lib self env))) = (\<not> alert_fetch_fails lib env)
     \<and> md_data_quality (snd (fst (fetch_alerts lib self env))) \<noteq> STALE"
  proof (cases "alert_fetch_fails lib env")
    case True
    from fetch_alerts_failure [OF this, of self] show ?thesis
      using True by (auto simp: failed_metadata_def)
  next
    case False
    from fetch_alerts_success [OF this, of self] show ?thesis
      using False by (auto simp: assess_quality_not_stale)
  qed
  have fo: "\<forall>self' env'. outcome env' = outcome env \<longrightarrow>
         md_data_quality (snd (fst (fetch_forecasts lib self' env')))
           = md_data_quality (snd (fst (fetch_forecasts lib self env)))
         \<and> md_is_fresh (snd (fst (fetch_forecasts lib self' env')))
           = md_is_fresh (snd (fst (fetch_forecasts lib self env)))"
    using fetch_forecasts_outcome_only by blast
  have ao: "\<forall>self' env'. outcome env' = outcome env \<longrightarrow>
         md_data_quality (snd (fst (fetch_alerts lib self' env')))
           = md_data_quality (snd (fst (fetch_alerts lib self env)))
         \<and> md_is_fresh (snd (fst (fetch_alerts lib self' env')))
           = md_is_fresh (snd (fst (fetch_alerts lib self env)))"
    using fetch_alerts_outcome_only by blast
  note f1 = f [THEN conjunct1] and f2 = f [THEN conjunct2, THEN conjunct1]
    and f3 = f [THEN conjunct2, THEN conjunct2]
  note a1 = a [THEN conjunct1] and a2 = a [THEN conjunct2, THEN conjunct1]
    and a3 = a [THEN conjunct2, THEN conjunct2]
  show ?thesis by (intro conjI f1 f2 f3 a1 a2 a3 fo ao)
qed

theorem freshness_follows_success_witness:
  "md_is_fresh (snd (fst (fetch_forecasts lib_example new_fetcher
       (env_example Timeout ''2024-05-01T10:00:00'')))) = False
   \<and> md_success (snd (fst (fetch_forecasts lib_example new_fetcher
       (env_example Timeout ''2024-05-01T10:00:00'')))) = False
   \<and> md_is_fresh (snd (fst (fetch_alerts lib_example new_fetcher
       (env_example (Response ''<rss/>'' 120) ''2024-05-01T10:00:00'')))) = True
   \<and> md_success (snd (fst (fetch_alerts lib_example new_fetcher
       (env_example (Response ''<rss/>'' 120) ''2024-05-01T10:00:00'')))) = True
   \<and> outcome ((env_example Timeout ''2034-05-01T10:00:00'')\<lparr>elapsed_ms := 3\<rparr>)
       = outcome (env_example Timeout ''2024-05-01T10:00:00'')
   \<and> fetch_start ((env_example Timeout ''2034-05-01T10:00:00'')\<lparr>elapsed_ms := 3\<rparr>)
       \<noteq> fetch_start (env_example Timeout ''2024-05-01T10:00:00'')
   \<and> md_data_quality (snd (fst (fetch_forecasts lib_example (new_fetcher\<lparr>timeout := 30\<rparr>)
         ((env_example Timeout ''2034-05-01T10:00:00'')\<lparr>elapsed_ms := 3\<rparr>))))
       = md_data_quality (snd (fst (fetch_forecasts lib_example new_fetcher
           (env_example Timeout ''2024-05-01T10:00:00''))))
   \<and> md_is_fresh (snd (fst (fetch_forecasts lib_example (new_fetcher\<lparr>timeout := 30\<rparr>)
         ((env_example Timeout ''2034-05-01T10:00:00'')\<lparr>elapsed_ms := 3\<rparr>)))) = False
   \<and> md_data_quality (snd (fst (fetch_alerts lib_example (new_fetcher\<lparr>timeout := 30\<rparr>)
         ((env_example (Response ''<rss/>'' 120) ''2034-05-01T10:00:00'')\<lparr>elapsed_ms := 3\<rparr>))))
       = md_data_quality (snd (fst (fetch_alerts lib_example new_fetcher
           (env_example (Response ''<rss/>'' 120) ''2024-05-01T10:00:00''))))
   \<and> md_is_fresh (snd (fst (fetch_alerts lib_example (new_fetcher\<lparr>timeout := 30\<rparr>)
         ((env_example (Response ''<rss/>'' 120) ''2034-05-01T10:00:00'')\<lparr>elapsed_ms := 3\<rparr>))))
       = True"
proof -
  note f = freshness_follows_success [of lib_example new_fetcher
      "env_example Timeout ''2024-05-01T10:00:00''"]
  note a = freshness_follows_success [of lib_example new_fetcher
      "env_example (Response ''<rss/>'' 120) ''2024-05-01T10:00:00''"]
  have of: "outcome ((env_example Timeout ''2034-05-01T10:00:00'')\<lparr>elapsed_ms := 3\<rparr>)
       = outcome (env_example Timeout ''2024-05-01T10:00:00'')"
    and oa: "outcome ((env_example (Response ''<rss/>'' 120) ''2034-05-01T10:00:00'')\<lparr>elapsed_ms := 3\<rparr>)
       = outcome (env_example (Response ''<rss/>'' 120) ''2024-05-01T10:00:00'')"
    and st: "fetch_start ((env_example Timeout ''2034-05-01T10:00:00'')\<lparr>elapsed_ms := 3\<rparr>)
       \<noteq> fetch_start (env_example Timeout ''2024-05-01T10:00:00'')"
    by (simp_all add: env_example_def)
  have f1: "md_is_fresh (snd (fst (fetch_forecasts lib_example new_fetcher
       (env_example Timeout ''2024-05-01T10:00:00'')))) = False"
    and f2: "md_success (snd (fst (fetch_forecasts lib_example new_fetcher
       (env_example Timeout ''2024-05-01T10:00:00'')))) = False"
    using f example_forecast_fails by simp_all
  have a1: "md_is_fresh (snd (fst (fetch_alerts lib_example new_fetcher
       (env_example (Response ''<rss/>'' 120) ''2024-05-01T10:00:00'')))) = True"
    and a2: "md_success (snd (fst (fetch_alerts lib_example new_fetcher
       (env_example (Response ''<rss/>'' 120) ''2024-05-01T10:00:00'')))) = True"
    using a example_alert_ok by simp_all
  from f have "\<forall>self' env'. outcome env' = outcome (env_example Timeout ''2024-05-01T10:00:00'') \<longrightarrow>
         md_data_quality (snd (fst (fetch_forecasts lib_example self' env')))
           = md_data_quality (snd (fst (fetch_forecasts lib_example new_fetcher
               (env_example Timeout ''2024-05-01T10:00:00''))))
         \<and> md_is_fresh (snd (fst (fetch_forecasts lib_example self' env')))
           = md_is_fresh (snd (fst (fetch_forecasts lib_example new_fetcher
               (env_example Timeout ''2024-05-01T10:00:00''))))"
    by (elim conjE)
  from this [rule_format, OF of, of "new_fetcher\<lparr>timeout := 30\<rparr>"] f1
  have f3: "md_data_quality (snd (fst (fetch_forecasts lib_example (new_fetcher\<lparr>timeout := 30\<rparr>)
         ((env_example Timeout ''2034-05-01T10:00:00'')\<lparr>elapsed_ms := 3\<rparr>))))
       = md_data_quality (snd (fst (fetch_forecasts lib_example new_fetcher
           (env_example Timeout ''2024-05-01T10:00:00''))))"
    and f4: "md_is_fresh (snd (fst (fetch_forecasts lib_example (new_fetcher\<lparr>timeout := 30\<rparr>)
         ((env_example Timeout ''2034-05-01T10:00:00'')\<lparr>elapsed_ms := 3\<rparr>)))) = False"
    by simp_all
  from a have "\<forall>self' env'. outcome env'
           = outcome (env_example (Response ''<rss/>'' 120) ''2024-05-01T10:00:00'') \<longrightarrow>
         md_data_quality (snd (fst (fetch_alerts lib_example self' env')))
           = md_data_quality (snd (fst (fetch_alerts lib_example new_fetcher
               (env_example (Response ''<rss/>'' 120) ''2024-05-01T10:00:00''))))
         \<and> md_is_fresh (snd (fst (fetch_alerts lib_example self' env')))
           = md_is_fresh (snd (fst (fetch_alerts lib_example new_fetcher
               (env_example (Response ''<rss/>'' 120) ''2024-05-01T10:00:00''))))"
    by (elim conjE)
  from this [rule_format, OF oa, of "new_fetcher\<lparr>timeout := 30\<rparr>"] a1
  have a3: "md_data_quality (snd (fst (fetch_alerts lib_example (new_fetcher\<lparr>timeout := 30\<rparr>)
         ((env_example (Response ''<rss/>'' 120) ''2034-05-01T10:00:00'')\<lparr>elapsed_ms := 3\<rparr>))))
       = md_data_quality (snd (fst (fetch_alerts lib_example new_fetcher
           (env_example (Response ''<rss/>'' 120) ''2024-05-01T10:00:00''))))"
    and a4: "md_is_fresh (snd (fst (fetch_alerts lib_example (new_fetcher\<lparr>timeout := 30\<rparr>)
         ((env_example (Response ''<rss/>'' 120) ''2034-05-01T10:00:00'')\<lparr>elapsed_ms := 3\<rparr>))))
       = True"
    by simp_all
  show ?thesis
    using f1 f2 a1 a2 of st f3 f4 a3 a4 by (intro conjI)
qed

subsection \<open>C5: a failed fetch\<close>

text \<open>
  C5. For every fetch that fails, the fetch operation returns no record and the
  metadata of a failure (\<open>success = False\<close>, quality \<open>UNAVAILABLE\<close>, both entry
  counts 0), a value in which the parser of entries does not occur; the job of the
  scheduler then stores nothing, reports a failed result, and leaves the database as
  \<^verbatim>\<open>update_source_status\<close> makes it from this outcome: the row of the source is there,
  with status \<open>error\<close>, quality \<open>unavailable\<close>, the time of this fetch and its error
  text. The same holds for both sources.
\<close>

theorem failed_fetch_short_circuits:
  "(forecast_fetch_fails lib env \<longrightarrow>
      (\<exists>e. fst (fetch_forecasts lib (fetcher s) env)
              = ([], failed_metadata ANM_FORECAST_XML_URL FORECAST env e)
         \<and> database (snd (scheduler_fetch_forecasts lib s env))
              = update_source_status (database s) (status_now env) ANM_FORECAST_XML_URL
                  ''forecast'' FORECAST_SOURCE_name False ''unavailable'' False 0
                  (Some (str_of_exception e)) (elapsed_ms env)
         \<and> res_success (fst (scheduler_fetch_forecasts lib s env)) = False
         \<and> res_entries_added (fst (scheduler_fetch_forecasts lib s env)) = 0
         \<and> res_total_entries (fst (scheduler_fetch_forecasts lib s env)) = 0
         \<and> res_data_quality (fst (scheduler_fetch_forecasts lib s env)) = ''unavailable''
         \<and> (\<exists>row \<in> set (source_status (database (snd (scheduler_fetch_forecasts lib s env)))).
               ss_source_url row = ANM_FORECAST_XML_URL \<and> ss_status row = ''error''
               \<and> ss_data_quality row = ''unavailable'' \<and> ss_is_fresh row = 0
               \<and> ss_last_fetch_at row = Some (status_now env)
               \<and> ss_last_error row = Some (str_of_exception e)
               \<and> ss_entries_count row = 0)))
   \<and> (alert_fetch_fails lib env \<longrightarrow>
      (\<exists>e. fst (fetch_alerts lib (fetcher s) env)
              = ([], failed_metadata ANM_ALERTS_RSS_URL ALERT env e)
         \<and> database (snd (scheduler_fetch_alerts lib s env))
              = update_source_status (database s) (status_now env) ANM_ALERTS_RSS_URL
                  ''alert'' ALERT_SOURCE_name False ''unavailable'' False 0
                  (Some (str_of_exception e)) (elapsed_ms env)
         \<and> res_success (fst (scheduler_fetch_alerts lib s env)) = False
         \<and> res_entries_added (fst (scheduler_fetch_alerts lib s env)) = 0
         \<and> res_total_entries (fst (scheduler_fetch_alerts lib s env)) = 0
         \<and> res_data_quality (fst (scheduler_fetch_alerts lib s env)) = ''unavailable''
         \<and> (\<exists>row \<in> set (source_status (database (snd (scheduler_fetch_alerts lib s env)))).
               ss_source_url row = ANM_ALERTS_RSS_URL \<and> ss_status row = ''error''
               \<and> ss_data_quality row = ''unavailable'' \<and> ss_is_fresh row = 0
               \<and> ss_last_fetch_at row = Some (status_now env)
               \<and> ss_last_error row = Some (str_of_exception e)
               \<and> ss_entries_count row = 0)))
   \<and> md_success (failed_metadata url source_type env e') = False
   \<and> md_data_quality (failed_metadata url source_type env e') = UNAVAILABLE
   \<and> md_entries_count (failed_metadata url source_type env e') = 0
   \<and> md_valid_entries (failed_metadata url source_type env e') = 0
   \<and> md_is_fresh (failed_metadata url source_type env e') = False"
proof -
  have forecast: "forecast_fetch_fails lib env \<longrightarrow>
      (\<exists>e. fst (fetch_forecasts lib (fetcher s) env)
              = ([], failed_metadata ANM_FORECAST_XML_URL FORECAST env e)
         \<and> database (snd (scheduler_fetch_forecasts lib s env))
              = update_source_status (database s) (status_now env) ANM_FORECAST_XML_URL
                  ''forecast'' FORECAST_SOURCE_name False ''unavailable'' False 0
                  (Some (str_of_exception e)) (elapsed_ms env)
         \<and> res_success (fst (scheduler_fetch_forecasts lib s env)) = False
         \<and> res_entries_added (fst (scheduler_fetch_forecasts lib s env)) = 0
         \<and> res_total_entries (fst (scheduler_fetch_forecasts lib s env)) = 0
         \<and> res_data_quality (fst (scheduler_fetch_forecasts lib s env)) = ''unavailable''
         \<and> (\<exists>row \<in> set (source_status (database (snd (scheduler_fetch_forecasts lib s env)))).
               ss_source_url row = ANM_FORECAST_XML_URL \<and> ss_status row = ''error''
               \<and> ss_data_quality row = ''unavailable'' \<and> ss_is_fresh row = 0
               \<and> ss_last_fetch_at row = Some (status_now env)
               \<and> ss_last_error row = Some (str_of_exception e)
               \<and> ss_entries_count row = 0))"
  proof
    assume "forecast_fetch_fails lib env"
    from fetch_forecasts_failure [OF this, of "fetcher s"] obtain e where
      f: "fetch_forecasts lib (fetcher s) env
           = (([], failed_metadata ANM_FORECAST_XML_URL FORECAST env e),
              (fetcher s)\<lparr>last_fetch_metadata := (last_fetch_metadata (fetcher s))
                     (ANM_FORECAST_XML_URL \<mapsto> failed_metadata ANM_FORECAST_XML_URL FORECAST env e)\<rparr>)"
      by blast
    have db: "database (snd (scheduler_fetch_forecasts lib s env))
              = update_source_status (database s) (status_now env) ANM_FORECAST_XML_URL
                  ''forecast'' FORECAST_SOURCE_name False ''unavailable'' False 0
                  (Some (str_of_exception e)) (elapsed_ms env)"
      by (simp add: scheduler_fetch_forecasts_def f failed_metadata_def Let_def)
    have res: "res_success (fst (scheduler_fetch_forecasts lib s env)) = False
         \<and> res_entries_added (fst (scheduler_fetch_forecasts lib s env)) = 0
         \<and> res_total_entries (fst (scheduler_fetch_forecasts lib s env)) = 0
         \<and> res_data_quality (fst (scheduler_fetch_forecasts lib s env)) = ''unavailable''"
      by (simp add: scheduler_fetch_forecasts_def f failed_metadata_def Let_def)
    have row: "\<exists>row \<in> set (source_status (database (snd (scheduler_fetch_forecasts lib s env)))).
               ss_source_url row = ANM_FORECAST_XML_URL \<and> ss_status row = ''error''
               \<and> ss_data_quality row = ''unavailable'' \<and> ss_is_fresh row = 0
               \<and> ss_last_fetch_at row = Some (status_now env)
               \<and> ss_last_error row = Some (str_of_exception e)
               \<and> ss_entries_count row = 0"
      unfolding db
      using update_source_status_failure_row [of "database s" "status_now env"
          ANM_FORECAST_XML_URL "''forecast''" FORECAST_SOURCE_name "''unavailable''" False 0
          "Some (str_of_exception e)" "elapsed_ms env"]
      by auto
    show "\<exists>e. fst (fetch_forecasts lib (fetcher s) env)
              = ([], failed_metadata ANM_FORECAST_XML_URL FORECAST env e)
         \<and> database (snd (scheduler_fetch_forecasts lib s env))
              = update_source_status (database s) (status_now env) ANM_FORECAST_XML_URL
                  ''forecast'' FORECAST_SOURCE_name False ''unavailable'' False 0
                  (Some (str_of_exception e)) (elapsed_ms env)
         \<and> res_success (fst (scheduler_fetch_forecasts lib s env)) = False
         \<and> res_entries_added (fst (scheduler_fetch_forecasts lib s env)) = 0
         \<and> res_total_entries (fst (scheduler_fetch_forecasts lib s env)) = 0
         \<and> res_data_quality (fst (scheduler_fetch_forecasts lib s env)) = ''unavailable''
         \<and> (\<exists>row \<in> set (source_status (database (snd (scheduler_fetch_forecasts lib s env)))).
               ss_source_url row = ANM_FORECAST_XML_URL \<and> ss_status row = ''error''
               \<and> ss_data_quality row = ''unavailable'' \<and> ss_is_fresh row = 0
               \<and> ss_last_fetch_at row = Some (status_now env)
               \<and> ss_last_error row = Some (str_of_exception e)
               \<and> ss_entries_count row = 0)"
      using f db res row by (intro exI [of _ e]) simp
  qed
  have alert: "alert_fetch_fails lib env \<longrightarrow>
      (\<exists>e. fst (fetch_alerts lib (fetcher s) env)
              = ([], failed_metadata ANM_ALERTS_RSS_URL ALERT env e)
         \<and> database (snd (scheduler_fetch_alerts lib s env))
              = update_source_status (database s) (status_now env) ANM_ALERTS_RSS_URL
                  ''alert'' ALERT_SOURCE_name False ''unavailable'' False 0
                  (Some (str_of_exception e)) (elapsed_ms env)
         \<and> res_success (fst (scheduler_fetch_alerts lib s env)) = False
         \<and> res_entries_added (fst (scheduler_fetch_alerts lib s env)) = 0
         \<and> res_total_entries (fst (scheduler_fetch_alerts lib s env)) = 0
         \<and> res_data_quality (fst (scheduler_fetch_alerts lib s env)) = ''unavailable''
         \<and> (\<exists>row \<in> set (source_status (database (snd (scheduler_fetch_alerts lib s env)))).
               ss_source_url row = ANM_ALERTS_RSS_URL \<and> ss_status row = ''error''
               \<and> ss_data_quality row = ''unavailable'' \<and> ss_is_fresh row = 0
               \<and> ss_last_fetch_at row = Some (status_now env)
               \<and> ss_last_error row = Some (str_of_exception e)
               \<and> ss_entries_count row = 0))"
  proof
    assume "alert_fetch_fails lib env"
    from fetch_alerts_failure [OF this, of "fetcher s"] obtain e where
      f: "fetch_alerts lib (fetcher s) env
           = (([], failed_metadata ANM_ALERTS_RSS_URL ALERT env e),
              (fetcher s)\<lparr>last_fetch_metadata := (last_fetch_metadata (fetcher s))
                     (ANM_ALERTS_RSS_URL \<mapsto> failed_metadata ANM_ALERTS_RSS_URL ALERT env e)\<rparr>)"
      by blast
    have db: "database (snd (scheduler_fetch_alerts lib s env))
              = update_source_status (database s) (status_now env) ANM_ALERTS_RSS_URL
                  ''alert'' ALERT_SOURCE_name False ''unavailable'' False 0
                  (Some (str_of_exception e)) (elapsed_ms env)"
      by (simp add: scheduler_fetch_alerts_def f failed_metadata_def Let_def)
    have res: "res_success (fst (scheduler_fetch_alerts lib s env)) = False
         \<and> res_entries_added (fst (scheduler_fetch_alerts lib s env)) = 0
         \<and> res_total_entries (fst (scheduler_fetch_alerts lib s env)) = 0
         \<and> res_data_quality (fst (scheduler_fetch_alerts lib s env)) = ''unavailable''"
      by (simp add: scheduler_fetch_alerts_def f failed_metadata_def Let_def)
    have row: "\<exists>row \<in> set (source_status (database (snd (scheduler_fetch_alerts lib s env)))).
               ss_source_url row = ANM_ALERTS_RSS_URL \<and> ss_status row = ''error''
               \<and> ss_data_quality row = ''unavailable'' \<and> ss_is_fresh row = 0
               \<and> ss_last_fetch_at row = Some (status_now env)
               \<and> ss_last_error row = Some (str_of_exception e)
               \<and> ss_entries_count row = 0"
      unfolding db
      using update_source_status_failure_row [of "database s" "status_now env"
          ANM_ALERTS_RSS_URL "''alert''" ALERT_SOURCE_name "''unavailable''" False 0
          "Some (str_of_exception e)" "elapsed_ms env"]
      by auto
    show "\<exists>e. fst (fetch_alerts lib (fetcher s) env)
              = ([], failed_metadata ANM_ALERTS_RSS_URL ALERT env e)
         \<and> database (snd (scheduler_fetch_alerts lib s env))
              = update_source_status (database s) (status_now env) ANM_ALERTS_RSS_URL
                  ''alert'' ALERT_SOURCE_name False ''unavailable'' False 0
                  (Some (str_of_exception e)) (elapsed_ms env)
         \<and> res_success (fst (scheduler_fetch_alerts lib s env)) = False
         \<and> res_entries_added (fst (scheduler_fetch_alerts lib s env)) = 0
         \<and> res_total_entries (fst (scheduler_fetch_alerts lib s env)) = 0
         \<and> res_data_quality (fst (scheduler_fetch_alerts lib s env)) = ''unavailable''
         \<and> (\<exists>row \<in> set (source_status (database (snd (scheduler_fetch_alerts lib s env)))).
               ss_source_url row = ANM_ALERTS_RSS_URL \<and> ss_status row = ''error''
               \<and> ss_data_quality row = ''unavailable'' \<and> ss_is_fresh row = 0
               \<and> ss_last_fetch_at row = Some (status_now env)
               \<and> ss_last_error row = Some (str_of_exception e)
               \<and> ss_entries_count row = 0)"
      using f db res row by (intro exI [of _ e]) simp
  qed
  show ?thesis
    using forecast alert by (simp add: failed_metadata_def)
qed

theorem failed_fetch_short_circuits_witness:
  "forecast_fetch_fails lib_example (env_example Timeout ''2024-05-01T10:00:00'')
   \<and> fst (fetch_forecasts lib_example new_fetcher (env_example Timeout ''2024-05-01T10:00:00''))
       = ([], failed_metadata ANM_FORECAST_XML_URL FORECAST
                (env_example Timeout ''2024-05-01T10:00:00'')
                (FetchError ''Request timed out after 15s''))
   \<and> map (\<lambda>r. (ss_source_url r, ss_status r, ss_data_quality r, ss_fetch_count r,
              ss_error_count r, ss_consecutive_failures r, ss_last_error r))
        (source_status (database (snd (scheduler_fetch_forecasts lib_example
           (new_scheduler empty_database) (env_example Timeout ''2024-05-01T10:00:00'')))))
       = [(ANM_FORECAST_XML_URL, ''error'', ''unavailable'', 1, 1, 1,
           Some ''Request timed out after 15s'')]
   \<and> alert_fetch_fails lib_example (env_example Timeout ''2024-05-01T10:00:00'')
   \<and> fst (fst (fetch_alerts lib_example new_fetcher
         (env_example Timeout ''2024-05-01T10:00:00''))) = []
   \<and> res_success (fst (scheduler_fetch_alerts lib_example (new_scheduler empty_database)
         (env_example Timeout ''2024-05-01T10:00:00''))) = False
   \<and> res_data_quality (fst (scheduler_fetch_alerts lib_example (new_scheduler empty_database)
         (env_example Timeout ''2024-05-01T10:00:00''))) = ''unavailable''"
proof -
  let ?env = "env_example Timeout ''2024-05-01T10:00:00''"
  note inst = failed_fetch_short_circuits [of lib_example ?env "new_scheduler empty_database"]
  have msg: "str_of_int 15 = ''15''"
    by code_simp
  have fetched: "fst (fetch_forecasts lib_example new_fetcher ?env)
       = ([], failed_metadata ANM_FORECAST_XML_URL FORECAST ?env
                (FetchError ''Request timed out after 15s''))"
    by (simp add: fetch_forecasts_def new_fetcher_def DEFAULT_TIMEOUT_def env_example_def
        Let_def msg)
  from inst example_forecast_fails
  obtain e where e: "fst (fetch_forecasts lib_example (fetcher (new_scheduler empty_database)) ?env)
              = ([], failed_metadata ANM_FORECAST_XML_URL FORECAST ?env e)"
    and db: "database (snd (scheduler_fetch_forecasts lib_example (new_scheduler empty_database) ?env))
              = update_source_status (database (new_scheduler empty_database)) (status_now ?env)
                  ANM_FORECAST_XML_URL ''forecast'' FORECAST_SOURCE_name False ''unavailable''
                  False 0 (Some (str_of_exception e)) (elapsed_ms ?env)"
    by blast
  have nf: "fetcher (new_scheduler empty_database) = new_fetcher"
    by (simp add: new_scheduler_def)
  with e fetched have "str_of_exception e = ''Request timed out after 15s''"
    by (simp add: failed_metadata_def)
  with db have rows: "map (\<lambda>r. (ss_source_url r, ss_status r, ss_data_quality r, ss_fetch_count r,
              ss_error_count r, ss_consecutive_failures r, ss_last_error r))
        (source_status (database (snd (scheduler_fetch_forecasts lib_example
           (new_scheduler empty_database) ?env))))
       = [(ANM_FORECAST_XML_URL, ''error'', ''unavailable'', 1, 1, 1,
           Some ''Request timed out after 15s'')]"
    by (simp add: update_source_status_def new_scheduler_def empty_database_def Let_def)
  from inst example_alert_fails
  obtain e' where "fst (fetch_alerts lib_example (fetcher (new_scheduler empty_database)) ?env)
              = ([], failed_metadata ANM_ALERTS_RSS_URL ALERT ?env e')"
    and "res_success (fst (scheduler_fetch_alerts lib_example (new_scheduler empty_database) ?env))
              = False"
    and "res_data_quality (fst (scheduler_fetch_alerts lib_example
           (new_scheduler empty_database) ?env)) = ''unavailable''"
    by blast
  then have alerts: "fst (fst (fetch_alerts lib_example new_fetcher ?env)) = []
     \<and> res_success (fst (scheduler_fetch_alerts lib_example (new_scheduler empty_database)
           ?env)) = False
     \<and> res_data_quality (fst (scheduler_fetch_alerts lib_example (new_scheduler empty_database)
           ?env)) = ''unavailable''"
    by (simp add: nf)
  show ?thesis
    using example_forecast_fails fetched rows example_alert_fails alerts by simp
qed

subsection \<open>The forecast parser: helper lemmas\<close>

lemma parse_prognoza_eq:
  "parse_prognoza lib city_name data_prognozei p (forecasts, valid_count, total_count)
     = (if entry_valid lib p
        then (forecasts @ [forecast_of lib city_name data_prognozei p], valid_count + 1,
              total_count + 1)
        else (forecasts, valid_count, total_count + 1))"
  by (auto simp: parse_prognoza_def entry_valid_def forecast_of_def Let_def
      split: option.splits)

lemma prognoza_loop_eq:
  "prognoza_loop lib city_name data_prognozei ps (forecasts, valid_count, total_count)
     = (forecasts @ map (forecast_of lib city_name data_prognozei) (filter (entry_valid lib) ps),
        valid_count + int (length (filter (entry_valid lib) ps)),
        total_count + int (length ps))"
proof (induction ps arbitrary: forecasts valid_count total_count)
  case Nil
  then show ?case by simp
next
  case (Cons p ps)
  then show ?case by (simp add: parse_prognoza_eq)
qed

lemma localitate_loop_eq:
  "localitate_loop lib ls (forecasts, valid_count, total_count)
     = (forecasts @ concat (map (location_forecasts lib) (filter named_location ls)),
        valid_count + int (length (filter (entry_valid lib)
           (concat (map (\<lambda>l. xml_findall l ''prognoza'') (filter named_location ls))))),
        total_count + int (length
           (concat (map (\<lambda>l. xml_findall l ''prognoza'') (filter named_location ls)))))"
proof (induction ls arbitrary: forecasts valid_count total_count)
  case Nil
  then show ?case by simp
next
  case (Cons l ls)
  show ?case
  proof (cases "named_location l")
    case True
    then show ?thesis
      using Cons.IH
      by (simp add: named_location_def Let_def prognoza_loop_eq location_forecasts_def)
  next
    case False
    then show ?thesis
      using Cons.IH by (simp add: named_location_def Let_def)
  qed
qed

lemma example_doc_counts:
  "length (counted_entries forecast_doc) = 3
   \<and> map (\<lambda>p. xml_get p ''data'' [])
        (filter (entry_valid (lib_xml forecast_doc)) (counted_entries forecast_doc))
      = [''2024-05-01'']"
  by code_simp

subsection \<open>C6: what the forecast parser counts\<close>

text \<open>
  C6, as the code has it. For every forecast document that parses as XML, the total
  count is the number of per-day entries under the locations whose name is not empty
  after stripping white space (a location with a missing, empty or blank name is
  skipped with all its entries), the valid count is the number of those entries that
  have a forecast date and a minimum and maximum temperature that \<^verbatim>\<open>int\<close> accepts,
  and the records are those of the valid entries, in order; an invalid entry only
  leaves the valid count and the records as they are. The operation ends in a
  validation error exactly when the document does not parse as XML.
\<close>

theorem parse_forecast_xml_counts:
  "(case ET_fromstring lib content of
      Inl e \<Rightarrow> parse_forecast_xml lib content = Inl (ValidationError (''XML parsing failed: '' @ e))
    | Inr root_elem \<Rightarrow>
        (\<exists>forecasts valid_count total_count.
           parse_forecast_xml lib content = Inr (forecasts, valid_count, total_count)
           \<and> total_count = int (length (counted_entries root_elem))
           \<and> valid_count = int (length (filter (entry_valid lib) (counted_entries root_elem)))
           \<and> int (length forecasts) = valid_count
           \<and> forecasts
              = concat (map (location_forecasts lib)
                  (filter named_location (xml_findall_descendants root_elem ''localitate'')))
           \<and> map cf_forecast_date forecasts
              = map (\<lambda>p. xml_get p ''data'' []) (filter (entry_valid lib) (counted_entries root_elem))))"
proof (cases "ET_fromstring lib content")
  case (Inl e)
  then show ?thesis by (simp add: parse_forecast_xml_def)
next
  case (Inr root_elem)
  let ?ls = "filter named_location (xml_findall_descendants root_elem ''localitate'')"
  have p: "parse_forecast_xml lib content
      = Inr (concat (map (location_forecasts lib) ?ls),
             int (length (filter (entry_valid lib) (counted_entries root_elem))),
             int (length (counted_entries root_elem)))"
    by (simp add: parse_forecast_xml_def Inr localitate_loop_eq counted_entries_def)
  have len: "length (concat (map (location_forecasts lib) ls))
      = length (filter (entry_valid lib) (concat (map (\<lambda>l. xml_findall l ''prognoza'') ls)))" for ls
    by (induction ls) (simp_all add: location_forecasts_def)
  have dates: "map cf_forecast_date (concat (map (location_forecasts lib) ls))
      = map (\<lambda>p. xml_get p ''data'' [])
          (filter (entry_valid lib) (concat (map (\<lambda>l. xml_findall l ''prognoza'') ls)))" for ls
    by (induction ls) (simp_all add: location_forecasts_def forecast_of_def comp_def)
  show ?thesis
    using p len [of ?ls] dates [of ?ls] by (simp add: Inr counted_entries_def)
qed

theorem parse_forecast_xml_counts_witness:
  "\<exists>forecasts. parse_forecast_xml (lib_xml forecast_doc) ''<tara/>'' = Inr (forecasts, 1, 3)
     \<and> map cf_forecast_date forecasts = [''2024-05-01'']"
proof -
  have doc: "ET_fromstring (lib_xml forecast_doc) ''<tara/>'' = Inr forecast_doc"
    by (simp add: lib_xml_def)
  from parse_forecast_xml_counts [of "lib_xml forecast_doc" "''<tara/>''"]
  obtain forecasts valid_count total_count where
    p: "parse_forecast_xml (lib_xml forecast_doc) ''<tara/>''
          = Inr (forecasts, valid_count, total_count)"
    and t: "total_count = int (length (counted_entries forecast_doc))"
    and v: "int (length forecasts) = valid_count"
    and d: "map cf_forecast_date forecasts
              = map (\<lambda>p. xml_get p ''data'' [])
                  (filter (entry_valid (lib_xml forecast_doc)) (counted_entries forecast_doc))"
    unfolding doc by auto
  from d have d': "map cf_forecast_date forecasts = [''2024-05-01'']"
    by (simp only: example_doc_counts)
  then have "length forecasts = 1"
    by (auto simp: map_eq_Cons_conv)
  with v have "valid_count = 1" by simp
  moreover from t have "total_count = 3" by (simp add: example_doc_counts)
  ultimately show ?thesis using p d' by (intro exI [of _ forecasts]) simp
qed

text \<open>
  The claim counts the entries under every location with a non-empty name. A location
  whose name is one blank has a non-empty name, and the parser skips it: the document
  has one such entry and the total is 0.
\<close>

theorem blank_name_location_not_counted:
  "ET_fromstring (lib_xml blank_name_doc) ''<tara/>'' = Inr blank_name_doc
   \<and> parse_forecast_xml (lib_xml blank_name_doc) ''<tara/>'' = Inr ([], 0, 0)
   \<and> map (\<lambda>l. xml_get l ''nume'' []) (xml_findall_descendants blank_name_doc ''localitate'')
      = ['' '']
   \<and> length (entries_under_nonempty_names blank_name_doc) = 1"
proof -
  have "ET_fromstring (lib_xml blank_name_doc) ''<tara/>'' = Inr blank_name_doc"
    by (simp add: lib_xml_def)
  moreover have "parse_forecast_xml (lib_xml blank_name_doc) ''<tara/>'' = Inr ([], 0, 0)"
    by code_simp
  moreover have "map (\<lambda>l. xml_get l ''nume'' []) (xml_findall_descendants blank_name_doc ''localitate'')
      = ['' '']"
    by code_simp
  moreover have "length (entries_under_nonempty_names blank_name_doc) = 1"
    by code_simp
  ultimately show ?thesis by simp
qed

subsection \<open>The narrative formatter: helper lemmas\<close>

lemma clip_take: "clip n s = take n s"
  by (simp add: clip_def)

lemma find_app:
  "find P (xs @ ys) = (case find P xs of None \<Rightarrow> find P ys | Some x \<Rightarrow> Some x)"
  by (induction xs) auto

lemma pattern_loop_eq:
  "pattern_loop ps clean
     = map_option (take 500) (first_long (map (\<lambda>p. trimmed_capture p clean) ps))"
proof (induction ps)
  case Nil
  then show ?case by (simp add: first_long_def)
next
  case (Cons p ps)
  then show ?case
    by (cases "re_search True p clean")
       (simp_all add: first_long_def trimmed_capture_def Let_def clip_take)
qed

lemma format_alert_description_length: "length (format_alert_description lib text_in) \<le> 500"
  by (simp add: format_alert_description_def Let_def pattern_loop_eq clip_take
      split: option.splits)

lemma long_nowcast_capture:
  "map (\<lambda>p. trimmed_capture p (clean_html lib_example long_nowcast)) description_patterns
     = [Some (replicate 501 (CHR ''a'')), None, None]"
  by code_simp

lemma bulletin_message_captures:
  "map (\<lambda>p. trimmed_capture p (clean_html lib_example bulletin_message)) description_patterns
     = [None, None, None]"
  by code_simp

lemma bulletin_message_result:
  "format_alert_description lib_example bulletin_message
     = ''Ploi torentiale si vijelii puternice''"
  by code_simp

subsection \<open>C8: the narrative description of an alert\<close>

text \<open>
  C8, as the code has it. For every alert description text the formatter takes, in this
  order, the captures of the three patterns of its list (each stripped and with the
  trailing validity text removed) and then the stripped capture of the message
  pattern, and returns the first of them that is longer than 20 characters, cut to its
  first 500 characters; when there is none it returns the first 500 characters of the
  cleaned text. The result is never longer than 500 characters.
\<close>

theorem format_alert_description_order:
  "format_alert_description lib text_in
     = (case first_long
              (map (\<lambda>p. trimmed_capture p (clean_html lib text_in)) description_patterns
                 @ [message_capture (clean_html lib text_in)]) of
          Some c \<Rightarrow> take 500 c
        | None \<Rightarrow> take 500 (clean_html lib text_in))
   \<and> length (format_alert_description lib text_in) \<le> 500"
proof -
  let ?clean = "clean_html lib text_in"
  let ?cs = "map (\<lambda>p. trimmed_capture p ?clean) description_patterns"
  have split: "first_long (?cs @ [message_capture ?clean])
      = (case first_long ?cs of
           Some c \<Rightarrow> Some c
         | None \<Rightarrow> first_long [message_capture ?clean])"
    by (simp add: first_long_def List.map_filter_def find_app split: option.splits)
  have msg: "first_long [message_capture ?clean]
      = (case re_search True message_pattern ?clean of
           Some groups \<Rightarrow> (if length (strip (groups ! 0)) > 20 then Some (strip (groups ! 0)) else None)
         | None \<Rightarrow> None)"
    by (simp add: first_long_def message_capture_def split: option.splits)
  have eq: "format_alert_description lib text_in
     = (case first_long (?cs @ [message_capture ?clean]) of
          Some c \<Rightarrow> take 500 c
        | None \<Rightarrow> take 500 ?clean)"
    unfolding split msg
    by (simp add: format_alert_description_def Let_def pattern_loop_eq clip_take
        split: option.splits)
  have "length (format_alert_description lib text_in) \<le> 500"
    unfolding eq by (simp split: option.splits)
  with eq show ?thesis by simp
qed

theorem format_alert_description_order_witness:
  "format_alert_description lib_example nowcast_text = ''intensificari ale vantului''
   \<and> length (format_alert_description lib_example nowcast_text) \<le> 500"
proof -
  have "first_long
          (map (\<lambda>p. trimmed_capture p (clean_html lib_example nowcast_text)) description_patterns
             @ [message_capture (clean_html lib_example nowcast_text)])
        = Some ''intensificari ale vantului''"
    by code_simp
  with format_alert_description_order [of lib_example nowcast_text] show ?thesis
    by simp
qed

text \<open>
  The claim returns the capture itself, and goes from the listed patterns straight to
  the cleaned text. A nowcast text with a capture of 501 characters comes back cut to
  500; and a bulletin text that none of the three listed patterns matches comes back as
  the capture of the message pattern, not as the cleaned text.
\<close>

theorem format_alert_description_not_as_claimed:
  "map (\<lambda>p. trimmed_capture p (clean_html lib_example long_nowcast)) description_patterns
     = [Some (replicate 501 (CHR ''a'')), None, None]
   \<and> claimed_description lib_example long_nowcast = replicate 501 (CHR ''a'')
   \<and> length (format_alert_description lib_example long_nowcast) \<le> 500
   \<and> format_alert_description lib_example long_nowcast
       \<noteq> claimed_description lib_example long_nowcast
   \<and> map (\<lambda>p. trimmed_capture p (clean_html lib_example bulletin_message)) description_patterns
     = [None, None, None]
   \<and> claimed_description lib_example bulletin_message = bulletin_message
   \<and> format_alert_description lib_example bulletin_message
       = ''Ploi torentiale si vijelii puternice''
   \<and> format_alert_description lib_example bulletin_message
       \<noteq> claimed_description lib_example bulletin_message"
proof -
  have c1: "claimed_description lib_example long_nowcast = replicate 501 (CHR ''a'')"
    by (simp add: claimed_description_def Let_def long_nowcast_capture first_long_def)
  have l1: "length (format_alert_description lib_example long_nowcast) \<le> 500"
    by (rule format_alert_description_length)
  have n1: "format_alert_description lib_example long_nowcast
       \<noteq> claimed_description lib_example long_nowcast"
  proof
    assume "format_alert_description lib_example long_nowcast
       = claimed_description lib_example long_nowcast"
    with l1 c1 show False by simp
  qed
  have c2: "claimed_description lib_example bulletin_message = bulletin_message"
    by code_simp
  have n2: "format_alert_description lib_example bulletin_message
       \<noteq> claimed_description lib_example bulletin_message"
    unfolding c2 bulletin_message_result by (simp add: bulletin_message_def)
  show ?thesis
    by (intro conjI long_nowcast_capture c1 l1 n1 bulletin_message_captures c2
        bulletin_message_result n2)
qed

subsection \<open>The sync status: helper lemmas\<close>

text \<open>
  \<^verbatim>\<open>fetch_all\<close> ends with \<^verbatim>\<open>_update_sync_status\<close>, so the status it leaves is
  computed from the two results of that run: valid when both succeeded, partial when
  one did, unavailable when neither did. A firing of a registered job calls
  \<^verbatim>\<open>_fetch_forecasts\<close> or \<^verbatim>\<open>_fetch_alerts\<close> alone and leaves the sync status as it
  was.
\<close>

lemma run_job_sync_status:
  "get_sync_status (run_job lib s job_id env) = get_sync_status s"
  by (simp add: run_job_def get_sync_status_def scheduler_fetch_forecasts_def
      scheduler_fetch_alerts_def Let_def split: option.splits job_callable.splits prod.splits)

lemma scheduler_fetch_forecasts_last:
  "last_forecast_result (snd (scheduler_fetch_forecasts lib s env))
     = Some (fst (scheduler_fetch_forecasts lib s env))"
  by (simp add: scheduler_fetch_forecasts_def Let_def split: prod.splits)

lemma scheduler_fetch_alerts_last:
  "last_alert_result (snd (scheduler_fetch_alerts lib s env))
     = Some (fst (scheduler_fetch_alerts lib s env))
   \<and> last_forecast_result (snd (scheduler_fetch_alerts lib s env)) = last_forecast_result s"
  by (simp add: scheduler_fetch_alerts_def Let_def split: prod.splits)

lemma fetch_all_sync_status:
  "\<exists>st. get_sync_status (snd (fetch_all lib s forecast_env alert_env now)) = Some st
     \<and> last_sync_time st = now
     \<and> forecast_healthy st
         = Some (res_success (fst (scheduler_fetch_forecasts lib s forecast_env)))
     \<and> alert_healthy st
         = Some (res_success (fst (scheduler_fetch_alerts lib
              (snd (scheduler_fetch_forecasts lib s forecast_env)) alert_env)))
     \<and> overall_quality st
         = (if forecast_healthy st = Some True \<and> alert_healthy st = Some True then ''valid''
            else if forecast_healthy st = Some True \<or> alert_healthy st = Some True
            then ''partial''
            else ''unavailable'')"
proof -
  let ?s1 = "snd (scheduler_fetch_forecasts lib s forecast_env)"
  let ?s2 = "snd (scheduler_fetch_alerts lib ?s1 alert_env)"
  have all: "snd (fetch_all lib s forecast_env alert_env now) = update_sync_status ?s2 now"
    by (simp add: fetch_all_def split: prod.splits)
  have f: "last_forecast_result ?s2 = Some (fst (scheduler_fetch_forecasts lib s forecast_env))"
    using scheduler_fetch_alerts_last [of lib ?s1 alert_env]
      scheduler_fetch_forecasts_last [of lib s forecast_env] by simp
  have a: "last_alert_result ?s2 = Some (fst (scheduler_fetch_alerts lib ?s1 alert_env))"
    using scheduler_fetch_alerts_last [of lib ?s1 alert_env] by simp
  show ?thesis
    unfolding all by (simp add: get_sync_status_def update_sync_status_def Let_def truthy_def f a)
qed

lemma synced_summary:
  "is_running synced_scheduler
   \<and> map fst (jobs synced_scheduler) = [''forecast_job'', ''alert_job'']
   \<and> status_summary synced_scheduler = Some (Some True, Some True, ''valid'')"
  by code_simp

subsection \<open>C7: the sync status after a recurring job\<close>

text \<open>
  C7 says that after every full or partial sync, the runs of the recurring jobs
  included, \<^verbatim>\<open>get_sync_status\<close> returns a status recomputed from the latest outcome
  of each source. The code at a run of the forecast job that fails after a full sync in
  which both sources succeeded: the last forecast result is a failure, the last alert
  result a success, and the sync status still says that both sources are healthy and
  the overall quality is valid; \<^verbatim>\<open>_update_sync_status\<close>, had the job called it as
  \<^verbatim>\<open>fetch_all\<close> does, would have made it partial.
\<close>

theorem recurring_job_keeps_sync_status:
  "status_summary synced_scheduler = Some (Some True, Some True, ''valid'')
   \<and> map_option res_success (last_forecast_result after_forecast_job) = Some False
   \<and> map_option res_success (last_alert_result after_forecast_job) = Some True
   \<and> status_summary after_forecast_job = Some (Some True, Some True, ''valid'')
   \<and> status_summary (update_sync_status after_forecast_job ''2024-05-01T11:00:01'')
       = Some (Some False, Some True, ''partial'')"
  by code_simp

end
